theory Spec2Isabelle
  imports Complex_Main "HOL-Library.Signed_Division"
begin

section \<open>Values of the dashboard: bigint, number, text\<close>

text \<open>
  The dashboard component (the Dashboard function with the liquidation view) computes with
  three kinds of values.

  \<^item> \<^verbatim>\<open>bigint\<close>: unbounded integers, here \<open>int\<close>. The operator \<^verbatim>\<open>/\<close> on bigint truncates
    towards zero (\<open>sdiv\<close>) and throws a RangeError when the divisor is \<^verbatim>\<open>0n\<close>.
  \<^item> \<^verbatim>\<open>number\<close>: IEEE 754 double precision. A finite double is given by the rational it
    denotes; the infinities and NaN are values of their own. Every conversion into a
    number rounds to the nearest double, ties to the even significand (\<open>to_double\<close>).
    Negative zero is not told apart from zero: no comparison of the component can tell them
    apart, and both print as \<^verbatim>\<open>0\<close>.
  \<^item> text fields: strings of ASCII characters.
\<close>

type_synonym bigint = int

datatype exn = RangeError | InvalidDecimalNumberError | ReadContractError

definition bigint_div :: "bigint \<Rightarrow> bigint \<Rightarrow> exn + bigint" where
  "bigint_div a b = (if b = 0 then Inl RangeError else Inr (a sdiv b))"

definition try_bind :: "exn + 'a \<Rightarrow> ('a \<Rightarrow> exn + 'b) \<Rightarrow> exn + 'b" where
  "try_bind r f = (case r of Inl e \<Rightarrow> Inl e | Inr v \<Rightarrow> f v)"

datatype number = Finite rat | PosInf | NegInf | NaN

subsection \<open>Rounding to a double\<close>

text \<open>\<open>rne\<close> rounds a rational to the nearest integer, a tie to the even one.\<close>

definition rne :: "rat \<Rightarrow> int" where
  "rne x = (let f = \<lfloor>x\<rfloor>; d = x - of_int f
            in if d < 1 / 2 then f else if 1 / 2 < d then f + 1
               else if even f then f else f + 1)"

text \<open>
  \<open>ilog2 x\<close> is the binary exponent of a positive rational: the integer \<open>e\<close> with
  \<open>2\<^sup>e \<le> x < 2\<^sup>e\<^sup>+\<^sup>1\<close>.
\<close>

function ilog2 :: "rat \<Rightarrow> int" where
  "ilog2 x = (if 2 \<le> x then ilog2 (x / 2) + 1
              else if 0 < x \<and> x < 1 then ilog2 (2 * x) - 1
              else 0)"
  by pat_completeness auto
termination
proof (relation "measure (\<lambda>x. nat \<lfloor>x\<rfloor> + 2 * nat \<lceil>1 / x\<rceil>)")
  show "wf (measure (\<lambda>x::rat. nat \<lfloor>x\<rfloor> + 2 * nat \<lceil>1 / x\<rceil>))"
    by simp
next
  fix x :: rat
  assume x: "2 \<le> x"
  have a: "\<lfloor>x / 2\<rfloor> < \<lfloor>x\<rfloor>"
  proof -
    have "x / 2 \<le> x - 1" using x by simp
    then have "\<lfloor>x / 2\<rfloor> \<le> \<lfloor>x - 1\<rfloor>" by (rule floor_mono)
    then show ?thesis by simp
  qed
  have b: "0 < \<lfloor>x\<rfloor>" using x by simp
  have c: "\<lceil>1 / (x / 2)\<rceil> \<le> 1"
    by (subst ceiling_le_one) (use x in simp)
  have d: "1 \<le> \<lceil>1 / x\<rceil>"
    by (subst one_le_ceiling) (use x in simp)
  have "nat \<lfloor>x / 2\<rfloor> < nat \<lfloor>x\<rfloor>"
    using a b by linarith
  moreover have "nat \<lceil>1 / (x / 2)\<rceil> \<le> nat \<lceil>1 / x\<rceil>"
    using c d by linarith
  ultimately show "(x / 2, x) \<in> measure (\<lambda>x. nat \<lfloor>x\<rfloor> + 2 * nat \<lceil>1 / x\<rceil>)"
    unfolding in_measure by linarith
next
  fix x :: rat
  assume "\<not> 2 \<le> x" and x: "0 < x \<and> x < 1"
  define y where "y = 1 / x"
  have y: "1 < y" using x by (simp add: y_def)
  have a: "\<lfloor>x\<rfloor> = 0" using x by (simp add: floor_eq_iff)
  have b: "\<lfloor>2 * x\<rfloor> \<le> 1"
    using x by (simp add: floor_le_iff)
  have b0: "0 \<le> \<lfloor>2 * x\<rfloor>" using x by simp
  have c: "\<lceil>y / 2\<rceil> \<le> \<lceil>y\<rceil> - 1"
  proof -
    have "2 \<le> \<lceil>y\<rceil>" using y by (simp add: le_ceiling_iff)
    then have "of_int \<lceil>y\<rceil> / 2 \<le> (of_int (\<lceil>y\<rceil> - 1) :: rat)"
      by simp
    moreover have "y / 2 \<le> of_int \<lceil>y\<rceil> / 2"
      by (simp add: divide_right_mono)
    ultimately have "y / 2 \<le> of_int (\<lceil>y\<rceil> - 1)" by linarith
    then show ?thesis by (simp only: ceiling_le_iff)
  qed
  have c0: "1 \<le> \<lceil>y / 2\<rceil>" using y by (simp add: le_ceiling_iff)
  have e: "1 / (2 * x) = y / 2" by (simp add: y_def)
  have "nat \<lceil>y / 2\<rceil> < nat \<lceil>y\<rceil>"
    using c c0 by linarith
  moreover have "nat \<lfloor>2 * x\<rfloor> \<le> 1"
    using b b0 by linarith
  moreover have "nat \<lfloor>x\<rfloor> = 0"
    using a by simp
  ultimately show "(2 * x, x) \<in> measure (\<lambda>x. nat \<lfloor>x\<rfloor> + 2 * nat \<lceil>1 / x\<rceil>)"
    unfolding in_measure e y_def [symmetric] by linarith
qed

declare ilog2.simps [simp del]

text \<open>
  The double nearest to a rational \<open>x \<ge> 0\<close>: \<open>x\<close> is rounded to a multiple of
  \<open>2\<^sup>g\<close>, where \<open>g\<close> leaves 53 bits to the significand and is at least \<open>-1074\<close>, the exponent
  of the smallest subnormal double. A magnitude that rounds to \<open>2\<^sup>1\<^sup>0\<^sup>2\<^sup>4\<close> or more
  overflows to an infinity.
\<close>

definition nearest_double :: "rat \<Rightarrow> rat" where
  "nearest_double x =
     (let g = max (ilog2 x - 52) (- 1074)
      in of_int (rne (x / 2 powi g)) * 2 powi g)"

definition overflow_threshold :: rat where
  "overflow_threshold = 2 ^ 1024"

definition to_double :: "rat \<Rightarrow> number" where
  "to_double x =
     (let r = nearest_double \<bar>x\<bar>
      in if overflow_threshold \<le> r then (if 0 < x then PosInf else NegInf)
         else Finite (if 0 \<le> x then r else - r))"

text \<open>\<^verbatim>\<open>Number(b)\<close> of a bigint, and the division of a number by the literal \<^verbatim>\<open>1e18\<close>.\<close>

definition Number :: "bigint \<Rightarrow> number" where
  "Number b = to_double (of_int b)"

fun div_1e18 :: "number \<Rightarrow> number" where
  "div_1e18 (Finite q) = to_double (q / 10 ^ 18)"
| "div_1e18 PosInf = PosInf"
| "div_1e18 NegInf = NegInf"
| "div_1e18 NaN = NaN"

text \<open>The comparisons \<^verbatim>\<open><\<close>, \<^verbatim>\<open><=\<close>, \<^verbatim>\<open>>\<close>, \<^verbatim>\<open>>=\<close> and \<^verbatim>\<open>===\<close> of numbers.\<close>

fun num_lt :: "number \<Rightarrow> number \<Rightarrow> bool" where
  "num_lt (Finite a) (Finite b) = (a < b)"
| "num_lt (Finite a) PosInf = True"
| "num_lt NegInf (Finite b) = True"
| "num_lt NegInf PosInf = True"
| "num_lt _ _ = False"

fun num_eq :: "number \<Rightarrow> number \<Rightarrow> bool" where
  "num_eq (Finite a) (Finite b) = (a = b)"
| "num_eq PosInf PosInf = True"
| "num_eq NegInf NegInf = True"
| "num_eq _ _ = False"

definition num_le :: "number \<Rightarrow> number \<Rightarrow> bool" where
  "num_le a b = (num_lt a b \<or> num_eq a b)"

definition num_gt :: "number \<Rightarrow> number \<Rightarrow> bool" where
  "num_gt a b = num_lt b a"

definition num_ge :: "number \<Rightarrow> number \<Rightarrow> bool" where
  "num_ge a b = num_le b a"

fun isFinite :: "number \<Rightarrow> bool" where
  "isFinite (Finite q) = True"
| "isFinite _ = False"

text \<open>\<^verbatim>\<open>a || b\<close> on numbers: \<^verbatim>\<open>0\<close> and NaN are falsy.\<close>

fun num_or :: "number \<Rightarrow> number \<Rightarrow> number" where
  "num_or (Finite a) b = (if a = 0 then b else Finite a)"
| "num_or NaN b = b"
| "num_or a b = a"

fun negate :: "number \<Rightarrow> number" where
  "negate (Finite q) = Finite (- q)"
| "negate PosInf = NegInf"
| "negate NegInf = PosInf"
| "negate NaN = NaN"

subsection \<open>Reading decimal texts\<close>

definition is_digit :: "char \<Rightarrow> bool" where
  "is_digit c = (c \<in> set ''0123456789'')"

definition digit_val :: "char \<Rightarrow> nat" where
  "digit_val c = of_char c - 48"

definition digits_val :: "string \<Rightarrow> nat" where
  "digits_val ds = foldl (\<lambda>a c. 10 * a + digit_val c) 0 ds"

text \<open>Space, tab, line feed, vertical tab, form feed and carriage return.\<close>

definition is_space :: "char \<Rightarrow> bool" where
  "is_space c = (of_char c \<in> {32, 9, 10, 11, 12, 13 :: nat})"

text \<open>A sign at the head of a text: whether it is a minus, and the rest of the text.\<close>

definition strip_sign :: "string \<Rightarrow> bool \<times> string" where
  "strip_sign t =
     (case t of
        [] \<Rightarrow> (False, [])
      | c # r \<Rightarrow> if c = CHR ''-'' then (True, r)
                 else if c = CHR ''+'' then (False, r) else (False, t))"

text \<open>
  The exponent part at the head of a text: \<^verbatim>\<open>e\<close> or \<^verbatim>\<open>E\<close>, a sign or none, and at least
  one digit; its value is 0 when there is no such part.
\<close>

definition exponent_part :: "string \<Rightarrow> int" where
  "exponent_part t =
     (case t of
        [] \<Rightarrow> 0
      | c # r \<Rightarrow>
          if c = CHR ''e'' \<or> c = CHR ''E'' then
            (case strip_sign r of
               (neg, r') \<Rightarrow>
                 let ds = takeWhile is_digit r'
                 in if ds = [] then 0
                    else if neg then - int (digits_val ds) else int (digits_val ds))
          else 0)"

definition scale10 :: "rat \<Rightarrow> int \<Rightarrow> rat" where
  "scale10 m k = (if 0 \<le> k then m * 10 ^ nat k else m / 10 ^ nat (- k))"

text \<open>
  \<^verbatim>\<open>parseFloat(t)\<close> skips white space, reads a sign, and then the longest prefix that is
  \<^verbatim>\<open>Infinity\<close> or a decimal literal (digits, a dot and digits, an exponent part). It is NaN
  when there is no such prefix (the empty text, a lone dot), and otherwise the double
  nearest to the literal.
\<close>

definition parseFloat :: "string \<Rightarrow> number" where
  "parseFloat t =
     (case strip_sign (dropWhile is_space t) of
        (neg, t2) \<Rightarrow>
          let ip = takeWhile is_digit t2;
              r = dropWhile is_digit t2;
              dotted = (r \<noteq> [] \<and> hd r = CHR ''.'');
              fp = (if dotted then takeWhile is_digit (tl r) else []);
              r2 = (if dotted then dropWhile is_digit (tl r) else r);
              v = (if take 8 t2 = ''Infinity'' then PosInf
                   else if ip = [] \<and> fp = [] then NaN
                   else to_double (scale10 (of_nat (digits_val (ip @ fp)))
                                     (exponent_part r2 - int (length fp))))
          in if neg then negate v else v)"

text \<open>
  \<^verbatim>\<open>parseUnits(t, 18)\<close> of the viem library. The text must match
  \<^verbatim>\<open>/^(-?)([0-9]*)\.?([0-9]*)$/\<close>, otherwise InvalidDecimalNumberError is thrown. The
  fraction (\<^verbatim>\<open>0\<close> when the text has no dot) loses its trailing zeros. A fraction of at
  most 18 digits is padded to 18 digits. A longer one is cut into its first 17 digits
  \<open>left\<close>, the 18th digit \<open>unit\<close> and the rest \<open>right\<close>, and
  \<^verbatim>\<open>Math.round(Number(`${unit}.${right}`))\<close> (the double nearest to that decimal, rounded
  half up to an integer) becomes the 18th digit, carried into \<open>left\<close> and into the integer
  part when it is 10. The digits are then read as one integer.
\<close>

definition trim_zeros :: "string \<Rightarrow> string" where
  "trim_zeros t = rev (dropWhile (\<lambda>c. c = CHR ''0'') (rev t))"

definition parseUnits_abs :: "string \<Rightarrow> exn + bigint" where
  "parseUnits_abs t =
     (let integer = takeWhile is_digit t;
          r = dropWhile is_digit t;
          fpo = (case r of [] \<Rightarrow> Some ''0''
                 | c # r' \<Rightarrow> if c = CHR ''.'' \<and> list_all is_digit r' then Some r' else None)
      in case fpo of
           None \<Rightarrow> Inl InvalidDecimalNumberError
         | Some fraction0 \<Rightarrow>
             let fraction = trim_zeros fraction0
             in if length fraction > 18 then
                  let left = take 17 fraction;
                      unit = take 1 (drop 17 fraction);
                      right = drop 18 fraction;
                      rounded = \<lfloor>nearest_double (of_nat (digits_val unit)
                                   + of_nat (digits_val right) / 10 ^ length right) + 1 / 2\<rfloor>
                  in if rounded > 9
                     then Inr (int (digits_val integer) * 10 ^ 18 + (int (digits_val left) + 1) * 10)
                     else Inr (int (digits_val integer) * 10 ^ 18 + int (digits_val left) * 10
                               + rounded)
                else Inr (int (digits_val integer) * 10 ^ 18
                          + int (digits_val fraction) * 10 ^ (18 - length fraction)))"

definition parseUnits :: "string \<Rightarrow> exn + bigint" where
  "parseUnits t =
     (case t of
        [] \<Rightarrow> parseUnits_abs []
      | c # t' \<Rightarrow> if c = CHR ''-'' then map_sum id uminus (parseUnits_abs t')
                  else parseUnits_abs t)"

text \<open>
  \<^verbatim>\<open>parseUnits(x.toFixed(18), 18)\<close>: \<open>toFixed(18)\<close> writes the integer nearest to
  \<open>x * 10\<^sup>1\<^sup>8\<close> (of two nearest, the one away from zero) with a dot before its last 18
  digits, and \<open>parseUnits\<close> reads exactly this integer back. For NaN and the infinities
  the text is their name, and from \<^verbatim>\<open>1e21\<close> on it is in exponent notation; \<open>parseUnits\<close>
  throws on these. The composition is given as one function.
\<close>

definition round_half_away :: "rat \<Rightarrow> int" where
  "round_half_away q = (if q < 0 then - \<lfloor>- q + 1 / 2\<rfloor> else \<lfloor>q + 1 / 2\<rfloor>)"

fun parseUnits_toFixed18 :: "number \<Rightarrow> exn + bigint" where
  "parseUnits_toFixed18 (Finite q) =
     (if \<bar>q\<bar> \<ge> 10 ^ 21 then Inl InvalidDecimalNumberError
      else Inr (round_half_away (q * 10 ^ 18)))"
| "parseUnits_toFixed18 _ = Inl InvalidDecimalNumberError"

subsection \<open>Writing a number\<close>

text \<open>
  \<open>ilog10 x\<close> is the decimal exponent of a positive rational: the integer \<open>n\<close> with
  \<open>10\<^sup>n \<le> x < 10\<^sup>n\<^sup>+\<^sup>1\<close>.
\<close>

function ilog10 :: "rat \<Rightarrow> int" where
  "ilog10 x = (if 10 \<le> x then ilog10 (x / 10) + 1
               else if 0 < x \<and> x < 1 then ilog10 (10 * x) - 1
               else 0)"
  by pat_completeness auto
termination
proof (relation "measure (\<lambda>x. nat \<lfloor>x\<rfloor> + 10 * nat \<lceil>1 / x\<rceil>)")
  show "wf (measure (\<lambda>x::rat. nat \<lfloor>x\<rfloor> + 10 * nat \<lceil>1 / x\<rceil>))"
    by simp
next
  fix x :: rat
  assume x: "10 \<le> x"
  have a: "\<lfloor>x / 10\<rfloor> < \<lfloor>x\<rfloor>"
  proof -
    have "x / 10 \<le> x - 1" using x by simp
    then have "\<lfloor>x / 10\<rfloor> \<le> \<lfloor>x - 1\<rfloor>" by (rule floor_mono)
    then show ?thesis by simp
  qed
  have b: "0 < \<lfloor>x\<rfloor>" using x by simp
  have c: "\<lceil>1 / (x / 10)\<rceil> \<le> 1"
    by (subst ceiling_le_one) (use x in simp)
  have d: "1 \<le> \<lceil>1 / x\<rceil>"
    by (subst one_le_ceiling) (use x in simp)
  have "nat \<lfloor>x / 10\<rfloor> < nat \<lfloor>x\<rfloor>"
    using a b by linarith
  moreover have "nat \<lceil>1 / (x / 10)\<rceil> \<le> nat \<lceil>1 / x\<rceil>"
    using c d by linarith
  ultimately show "(x / 10, x) \<in> measure (\<lambda>x. nat \<lfloor>x\<rfloor> + 10 * nat \<lceil>1 / x\<rceil>)"
    unfolding in_measure by linarith
next
  fix x :: rat
  assume "\<not> 10 \<le> x" and x: "0 < x \<and> x < 1"
  define y where "y = 1 / x"
  have y: "1 < y" using x by (simp add: y_def)
  have a: "\<lfloor>x\<rfloor> = 0" using x by (simp add: floor_eq_iff)
  have b: "\<lfloor>10 * x\<rfloor> \<le> 9"
    using x by (simp add: floor_le_iff)
  have b0: "0 \<le> \<lfloor>10 * x\<rfloor>" using x by simp
  have c: "\<lceil>y / 10\<rceil> \<le> \<lceil>y\<rceil> - 1"
  proof -
    have "2 \<le> \<lceil>y\<rceil>" using y by (simp add: le_ceiling_iff)
    then have "of_int \<lceil>y\<rceil> / 2 \<le> (of_int (\<lceil>y\<rceil> - 1) :: rat)"
      by simp
    moreover have "y / 2 \<le> of_int \<lceil>y\<rceil> / 2"
      by (simp add: divide_right_mono)
    moreover have "y / 10 \<le> y / 2"
      using y by simp
    ultimately have "y / 10 \<le> of_int (\<lceil>y\<rceil> - 1)" by linarith
    then show ?thesis by (simp only: ceiling_le_iff)
  qed
  have c0: "1 \<le> \<lceil>y / 10\<rceil>" using y by (simp add: le_ceiling_iff)
  have e: "1 / (10 * x) = y / 10" by (simp add: y_def)
  have "nat \<lceil>y / 10\<rceil> < nat \<lceil>y\<rceil>"
    using c c0 by linarith
  moreover have "nat \<lfloor>10 * x\<rfloor> \<le> 9"
    using b b0 by linarith
  moreover have "nat \<lfloor>x\<rfloor> = 0"
    using a by simp
  ultimately show "(10 * x, x) \<in> measure (\<lambda>x. nat \<lfloor>x\<rfloor> + 10 * nat \<lceil>1 / x\<rceil>)"
    unfolding in_measure e y_def [symmetric] by linarith
qed

declare ilog10.simps [simp del]

text \<open>
  The decimals with \<open>k\<close> significant digits next to a positive double \<open>x\<close> whose decimal
  exponent is \<open>n\<close>: the one below and the one above. A decimal is a candidate when it
  reads back as \<open>x\<close>. Of two candidates the nearer one is taken, and of two equally near
  ones the one with the even last digit.
\<close>

definition decimal_candidate :: "rat \<Rightarrow> int \<Rightarrow> nat \<Rightarrow> rat option" where
  "decimal_candidate x n k =
     (let s = \<lfloor>scale10 x (int k - 1 - n)\<rfloor>;
          lo = scale10 (of_int s) (n + 1 - int k);
          hi = scale10 (of_int (s + 1)) (n + 1 - int k);
          lo_ok = (to_double lo = Finite x);
          hi_ok = (to_double hi = Finite x)
      in if lo_ok \<and> hi_ok then
           Some (if x - lo < hi - x then lo else if hi - x < x - lo then hi
                 else if even s then lo else hi)
         else if lo_ok then Some lo
         else if hi_ok then Some hi
         else None)"

text \<open>
  The shortest decimal that reads back as \<open>x\<close>: the candidates are tried with 1, 2, ...
  significant digits. Seventeen digits tell any two doubles apart, so that the search
  ends within its 17 rounds.
\<close>

fun shortest_from :: "rat \<Rightarrow> int \<Rightarrow> nat \<Rightarrow> nat \<Rightarrow> rat" where
  "shortest_from x n k 0 = x"
| "shortest_from x n k (Suc fuel) =
     (case decimal_candidate x n k of
        Some c \<Rightarrow> c
      | None \<Rightarrow> shortest_from x n (Suc k) fuel)"

definition shortest_decimal :: "rat \<Rightarrow> rat" where
  "shortest_decimal x = shortest_from x (ilog10 x) 1 17"

definition digit_char :: "nat \<Rightarrow> char" where
  "digit_char d = ''0123456789'' ! d"

fun digits_of :: "nat \<Rightarrow> string" where
  "digits_of n = (if n < 10 then [digit_char n] else digits_of (n div 10) @ [digit_char (n mod 10)])"

declare digits_of.simps [simp del]

text \<open>The digits after the dot of a decimal in \<open>[0, 1)\<close>, at most \<open>fuel\<close> of them.\<close>

fun fraction_digits :: "rat \<Rightarrow> nat \<Rightarrow> string" where
  "fraction_digits f 0 = []"
| "fraction_digits f (Suc fuel) =
     (if f = 0 then []
      else digit_char (nat \<lfloor>10 * f\<rfloor>) # fraction_digits (10 * f - of_int \<lfloor>10 * f\<rfloor>) fuel)"

text \<open>
  \<^verbatim>\<open>x.toString()\<close> for a positive double: with \<open>ds\<close> the \<open>k\<close> digits of the shortest decimal
  and \<open>n\<close> the position of its decimal point, the text is in plain decimals when
  \<open>-6 < n \<le> 21\<close> and in exponent notation otherwise.
\<close>

definition positive_toString :: "rat \<Rightarrow> string" where
  "positive_toString x =
     (let c = shortest_decimal x;
          e = ilog10 c;
          m = scale10 c (- e);
          ds = digit_char (nat \<lfloor>m\<rfloor>) # fraction_digits (m - of_int \<lfloor>m\<rfloor>) 20;
          k = int (length ds);
          n = e + 1
      in if k \<le> n \<and> n \<le> 21 then ds @ replicate (nat (n - k)) CHR ''0''
         else if 0 < n \<and> n \<le> 21 then take (nat n) ds @ ''.'' @ drop (nat n) ds
         else if - 6 < n \<and> n \<le> 0 then ''0.'' @ replicate (nat (- n)) CHR ''0'' @ ds
         else (if k = 1 then ds else take 1 ds @ ''.'' @ drop 1 ds)
              @ ''e'' @ (if 0 \<le> e then ''+'' else ''-'') @ digits_of (nat \<bar>e\<bar>))"

fun toString :: "number \<Rightarrow> string" where
  "toString NaN = ''NaN''"
| "toString PosInf = ''Infinity''"
| "toString NegInf = ''-Infinity''"
| "toString (Finite q) =
     (if q = 0 then ''0''
      else if q < 0 then ''-'' @ positive_toString (- q)
      else positive_toString q)"

text \<open>\<^verbatim>\<open>parseUnits(x.toString(), 18)\<close>.\<close>

definition parseUnits_toString :: "number \<Rightarrow> exn + bigint" where
  "parseUnits_toString x = parseUnits (toString x)"

text \<open>The test \<^verbatim>\<open>/^\d*\.?\d*$/\<close> of the input fields.\<close>

definition is_decimal_text :: "string \<Rightarrow> bool" where
  "is_decimal_text v =
     (case dropWhile is_digit v of
        [] \<Rightarrow> True
      | c # r \<Rightarrow> c = CHR ''.'' \<and> list_all is_digit r)"

section \<open>Constants and state of the dashboard\<close>

definition ORACLE_PRICE_SCALE :: bigint where
  "ORACLE_PRICE_SCALE = 10 ^ 36"

definition WAD :: bigint where
  "WAD = 10 ^ 18"

definition LLTV :: bigint where
  "LLTV = 920000000000000000"

definition ADDRESSES_MORPHO :: string where
  "ADDRESSES_MORPHO = ''0x6593314304ccc16ff64136123810Dd1e3EFa880a''"

definition ADDRESSES_UPETH :: string where
  "ADDRESSES_UPETH = ''0xc05bAe1723bd929306B0ab8125062Efc111fb338''"

definition ADDRESSES_UPKRW :: string where
  "ADDRESSES_UPKRW = ''0x159C54accF62C14C117474B67D2E3De8215F5A72''"

datatype MarketSelection = UPETH | UPKRW | UPETH_BORROW

datatype ActionMode = mode_supply | mode_withdraw

datatype TxStep =
  idle | approving | approved | supplying_collateral | collateral_supplied | borrowing | executing

datatype ExecutionStatus = exec_idle | broadcasting | confirmed

datatype LiquidateTxStep = liq_idle | liq_approving | liquidating | success

record UserPosition =
  supplyShares :: bigint
  borrowShares :: bigint
  collateral :: bigint
  supplyAssets :: number
  borrowAssets :: number

record LiquidatablePosition =
  borrower :: string
  lp_collateral :: bigint
  lp_borrowShares :: bigint
  lp_borrowAssets :: number
  healthFactor :: number
  maxSeizable :: bigint
  liquidationIncentive :: number

text \<open>
  A request handed to \<open>writeContract\<close>: the contract, the function name and the arguments
  (the \<open>marketParams\<close> tuple is the same constant in every call).
\<close>

datatype arg = MarketParams | Amount bigint | Address string | Bytes string

datatype request = WriteContract string string "arg list"

text \<open>
  The state of the component: the React state variables, the three refs, the results of
  the contract reads (\<open>None\<close> while a read has no data) and of the write hook, and in
  \<open>written\<close> the requests handed to \<open>writeContract\<close> so far, oldest first.
\<close>

record dashboard =
  isConnected :: bool
  address :: "string option"
  publicClient :: bool
  selection :: "MarketSelection option"
  actionMode :: ActionMode
  inputAmount :: string
  collateralAmount :: string
  simulatedHF :: "number option"
  executionStatus :: ExecutionStatus
  txStep :: TxStep
  approvedCollateralRef :: bigint
  borrowAmountRef :: bigint
  isFullRepayRef :: bool
  upethBalance :: number
  upkrwBalance :: number
  userPosition :: UserPosition
  currentHF :: "number option"
  liquidatablePositions :: "LiquidatablePosition list"
  borrowerToCheck :: string
  isLoadingPositions :: bool
  selectedBorrower :: "LiquidatablePosition option"
  liquidateAmount :: string
  liquidateTxStep :: LiquidateTxStep
  errorMessage :: "string option"
  marketData :: "(bigint \<times> bigint \<times> bigint \<times> bigint \<times> bigint \<times> bigint) option"
  oraclePrice :: "bigint option"
  positionData :: "(bigint \<times> bigint \<times> bigint) option"
  writeError :: "string option option"
  txHash :: "string option"
  isTxPending :: bool
  isTxSuccess :: bool
  isTxError :: bool
  written :: "request list"

text \<open>A bigint read from a contract is truthy when it has arrived and is not \<^verbatim>\<open>0n\<close>.\<close>

definition truthy_bigint :: "bigint option \<Rightarrow> bool" where
  "truthy_bigint p = (case p of None \<Rightarrow> False | Some v \<Rightarrow> v \<noteq> 0)"

section \<open>Position accounting\<close>

text \<open>
  The effect on \<open>positionData\<close> and \<open>marketData\<close>: the user's shares of each side are
  converted to assets with the totals of that side.
\<close>

definition positionEffect :: "dashboard \<Rightarrow> exn + dashboard" where
  "positionEffect s =
     (case (positionData s, marketData s) of
        (Some (supplyShares', borrowShares', collateral'),
         Some (totalSupplyAssets, totalSupplyShares, totalBorrowAssets, totalBorrowShares, _)) \<Rightarrow>
          try_bind
            (if totalSupplyShares > 0
             then try_bind (bigint_div (supplyShares' * totalSupplyAssets) totalSupplyShares)
                    (\<lambda>q. Inr (div_1e18 (Number q)))
             else Inr (Finite 0))
            (\<lambda>supplyAssets'.
          try_bind
            (if totalBorrowShares > 0
             then try_bind (bigint_div (borrowShares' * totalBorrowAssets) totalBorrowShares)
                    (\<lambda>q. Inr (div_1e18 (Number q)))
             else Inr (Finite 0))
            (\<lambda>borrowAssets'.
          Inr (s\<lparr>userPosition :=
                 \<lparr>supplyShares = supplyShares', borrowShares = borrowShares',
                  collateral = collateral', supplyAssets = supplyAssets',
                  borrowAssets = borrowAssets'\<rparr>\<rparr>)))
      | _ \<Rightarrow> Inr s)"

section \<open>Health factor\<close>

text \<open>
  \<open>calculateHealthFactor\<close> simulates the position with a new borrow and new collateral
  added, both given as numbers of whole tokens. The result \<open>None\<close> is \<^verbatim>\<open>null\<close>: there is no
  oracle price, or the total borrow or the total collateral is not positive.
\<close>

definition calculateHealthFactor :: "dashboard \<Rightarrow> number \<Rightarrow> number \<Rightarrow> exn + number option" where
  "calculateHealthFactor s newBorrowETH newCollateralKRW =
     (case oraclePrice s of
        None \<Rightarrow> Inr None
      | Some price \<Rightarrow>
          if price = 0 then Inr None
          else
            try_bind (parseUnits_toFixed18 (borrowAssets (userPosition s))) (\<lambda>existingBorrowBigInt.
            try_bind (parseUnits_toFixed18 newCollateralKRW) (\<lambda>newCollateralBigInt.
            try_bind (parseUnits_toFixed18 newBorrowETH) (\<lambda>newBorrowBigInt.
              let totalCollateral = collateral (userPosition s) + newCollateralBigInt;
                  totalBorrow = existingBorrowBigInt + newBorrowBigInt
              in if totalBorrow \<le> 0 then Inr None
                 else if totalCollateral \<le> 0 then Inr None
                 else
                   try_bind (bigint_div (totalCollateral * price * LLTV) (ORACLE_PRICE_SCALE * WAD))
                     (\<lambda>maxBorrow.
                   try_bind (bigint_div (maxBorrow * WAD) totalBorrow) (\<lambda>hfScaled.
                     let hf = div_1e18 (Number hfScaled)
                     in if \<not> isFinite hf \<or> num_gt hf (Finite 1000) then Inr (Some (Finite 1000))
                        else if num_lt hf (Finite 0) then Inr (Some (Finite 0))
                        else Inr (Some hf)))))))"

text \<open>
  The effect on \<open>oraclePrice\<close> and \<open>userPosition\<close> that computes the health factor shown
  for the existing position.
\<close>

definition currentHFEffect :: "dashboard \<Rightarrow> exn + dashboard" where
  "currentHFEffect s =
     (if truthy_bigint (oraclePrice s) \<and> collateral (userPosition s) > 0
         \<and> num_gt (borrowAssets (userPosition s)) (Finite 0)
      then
        try_bind (parseUnits_toFixed18 (borrowAssets (userPosition s))) (\<lambda>borrowAssetsBigInt.
          if borrowAssetsBigInt > 0 then
            try_bind (bigint_div (collateral (userPosition s) * the (oraclePrice s) * LLTV)
                        (ORACLE_PRICE_SCALE * WAD)) (\<lambda>maxBorrow.
            try_bind (bigint_div (maxBorrow * WAD) borrowAssetsBigInt) (\<lambda>hfScaled.
              let hf = div_1e18 (Number hfScaled);
                  hf = (if \<not> isFinite hf \<or> num_gt hf (Finite 1000) then Finite 1000 else hf);
                  hf = (if num_lt hf (Finite 0) then Finite 0 else hf)
              in Inr (s\<lparr>currentHF := Some hf\<rparr>)))
          else Inr (s\<lparr>currentHF := None\<rparr>))
      else Inr (s\<lparr>currentHF := None\<rparr>))"

section \<open>Requests to the wallet and its answers\<close>

definition writeContract :: "dashboard \<Rightarrow> request \<Rightarrow> dashboard" where
  "writeContract s r = s\<lparr>written := written s @ [r]\<rparr>"

text \<open>
  \<open>resetWrite\<close> clears the hash and the error of the write hook; the receipt hook, which
  waits for that hash, then reports nothing.
\<close>

definition resetWrite :: "dashboard \<Rightarrow> dashboard" where
  "resetWrite s =
     s\<lparr>writeError := None, txHash := None,
       isTxPending := False, isTxSuccess := False, isTxError := False\<rparr>"

fun str_includes :: "string \<Rightarrow> string \<Rightarrow> bool" where
  "str_includes [] t = (t = [])"
| "str_includes (c # cs) t = (take (length t) (c # cs) = t \<or> str_includes cs t)"

text \<open>
  The effect on \<open>writeError\<close> (the wallet rejected the request or could not send it). The
  error is \<open>Some m\<close>, with \<open>m\<close> its message if it has one. The timer that removes the
  message after three seconds is not modelled.
\<close>

definition writeErrorEffect :: "dashboard \<Rightarrow> dashboard" where
  "writeErrorEffect s =
     (case writeError s of
        None \<Rightarrow> s
      | Some message \<Rightarrow>
          let s1 = s\<lparr>txStep := idle, executionStatus := exec_idle, liquidateTxStep := liq_idle,
                     approvedCollateralRef := 0, borrowAmountRef := 0, isFullRepayRef := False\<rparr>;
              s2 = resetWrite s1;
              errorMsg = (if (case message of None \<Rightarrow> False | Some m \<Rightarrow> str_includes m ''User rejected'')
                          then ''Transaction cancelled'' else ''Transaction failed'')
          in s2\<lparr>errorMessage := Some errorMsg\<rparr>)"

text \<open>The effect on \<open>isTxError\<close> and \<open>txHash\<close> (the transaction failed after submission).\<close>

definition txErrorEffect :: "dashboard \<Rightarrow> dashboard" where
  "txErrorEffect s =
     (if isTxError s \<and> txHash s \<noteq> None \<and> txHash s \<noteq> Some []
      then resetWrite (s\<lparr>txStep := idle, executionStatus := exec_idle, liquidateTxStep := liq_idle,
                         errorMessage := Some ''Transaction failed on chain''\<rparr>)
      else s)"


definition afterRefetch :: "dashboard \<Rightarrow> dashboard" where
  "afterRefetch s =
     resetWrite (s\<lparr>executionStatus := exec_idle, txStep := idle, inputAmount := [],
                   collateralAmount := [], simulatedHF := None,
                   approvedCollateralRef := 0, borrowAmountRef := 0, isFullRepayRef := False\<rparr>)"

section \<open>Liquidation\<close>

text \<open>
  \<open>checkBorrowerPosition\<close> reads the position of a borrower; \<open>fetched\<close> is what the read
  of the contract gives, the position \<open>(supplyShares, borrowShares, collateral)\<close> or an
  exception. The result \<open>None\<close> is \<^verbatim>\<open>null\<close>.
\<close>

definition checkBorrowerPosition ::
  "dashboard \<Rightarrow> string \<Rightarrow> exn + (bigint \<times> bigint \<times> bigint) \<Rightarrow> LiquidatablePosition option" where
  "checkBorrowerPosition s borrowerAddress fetched =
     (if \<not> publicClient s \<or> \<not> truthy_bigint (oraclePrice s) \<or> marketData s = None
         \<or> borrowerAddress = []
      then None
      else
        case
          try_bind fetched (\<lambda>(_, borrowShares', collateral').
            case the (marketData s) of
              (_, _, totalBorrowAssets, totalBorrowShares, _) \<Rightarrow>
                if borrowShares' = 0 then Inr None
                else
                  try_bind (bigint_div (borrowShares' * totalBorrowAssets) totalBorrowShares)
                    (\<lambda>borrowAssetsBigInt.
                  try_bind (bigint_div (collateral' * the (oraclePrice s) * LLTV)
                              (ORACLE_PRICE_SCALE * WAD)) (\<lambda>maxBorrow.
                  try_bind (if borrowAssetsBigInt > 0
                            then bigint_div (maxBorrow * WAD) borrowAssetsBigInt else Inr 0)
                    (\<lambda>hfScaled.
                    Inr (Some \<lparr>borrower = borrowerAddress, lp_collateral = collateral',
                               lp_borrowShares = borrowShares',
                               lp_borrowAssets = div_1e18 (Number borrowAssetsBigInt),
                               healthFactor = div_1e18 (Number hfScaled),
                               maxSeizable = collateral',
                               liquidationIncentive = to_double (105 / 100)\<rparr>)))))
        of Inl e \<Rightarrow> None | Inr r \<Rightarrow> r)"

definition toLowerCase :: "string \<Rightarrow> string" where
  "toLowerCase t =
     map (\<lambda>c. if c \<in> set ''ABCDEFGHIJKLMNOPQRSTUVWXYZ'' then char_of (of_char c + (32::nat)) else c) t"

definition handleCheckBorrower ::
  "dashboard \<Rightarrow> exn + (bigint \<times> bigint \<times> bigint) \<Rightarrow> dashboard" where
  "handleCheckBorrower s fetched =
     (if borrowerToCheck s = [] then s
      else
        let s1 = (case checkBorrowerPosition s (borrowerToCheck s) fetched of
                    None \<Rightarrow> s
                  | Some position \<Rightarrow>
                      if find (\<lambda>p. toLowerCase (borrower p) = toLowerCase (borrower position))
                           (liquidatablePositions s) = None
                      then s\<lparr>liquidatablePositions := liquidatablePositions s @ [position]\<rparr>
                      else s\<lparr>liquidatablePositions :=
                             map (\<lambda>p. if toLowerCase (borrower p) = toLowerCase (borrower position)
                                       then position else p) (liquidatablePositions s)\<rparr>)
        in s1\<lparr>borrowerToCheck := [], isLoadingPositions := False\<rparr>)"

text \<open>
  The step after the approval of a liquidation. \<open>fetched\<close> is the fresh read of the
  borrower's position. An exception of \<open>parseUnits\<close> is not caught here.
\<close>

definition executeLiquidationAfterApprove ::
  "dashboard \<Rightarrow> exn + (bigint \<times> bigint \<times> bigint) \<Rightarrow> exn + dashboard" where
  "executeLiquidationAfterApprove s fetched =
     (case selectedBorrower s of
        None \<Rightarrow> Inr s
      | Some selected \<Rightarrow>
          if liquidateAmount s = [] \<or> \<not> truthy_bigint (oraclePrice s) then Inr s
          else
            case checkBorrowerPosition s (borrower selected) fetched of
              None \<Rightarrow> Inr (s\<lparr>errorMessage := Some ''Failed to fetch position data'',
                              liquidateTxStep := liq_idle\<rparr>)
            | Some freshPosition \<Rightarrow>
                try_bind (parseUnits (liquidateAmount s)) (\<lambda>repayAmount.
                try_bind (parseUnits_toString (lp_borrowAssets freshPosition)) (\<lambda>maxRepayAmount.
                  let repayAmount = (if repayAmount > maxRepayAmount then maxRepayAmount
                                     else repayAmount);
                      liquidationIncentive = 105
                  in try_bind (bigint_div (repayAmount * ORACLE_PRICE_SCALE * liquidationIncentive)
                                 (the (oraclePrice s) * 100)) (\<lambda>seizeAmount.
                       let seizeAmount = (if seizeAmount > lp_collateral freshPosition
                                          then lp_collateral freshPosition else seizeAmount)
                       in if seizeAmount = 0
                          then Inr (s\<lparr>errorMessage := Some ''No collateral to seize'',
                                       liquidateTxStep := liq_idle\<rparr>)
                          else
                            try_bind (bigint_div (seizeAmount * 95) 100) (\<lambda>seizeAmount.
                              Inr (writeContract (s\<lparr>liquidateTxStep := liquidating\<rparr>)
                                     (WriteContract ADDRESSES_MORPHO ''liquidate''
                                        [MarketParams, Address (borrower selected),
                                         Amount seizeAmount, Amount 0, Bytes ''0x''])))))))"

section \<open>The action panel\<close>

text \<open>
  Three messages of the component are Korean texts; they are given here by their meaning:
  "enter a collateral amount", "debt remains, so the collateral cannot be withdrawn in full;
  repay the debt in full first", and "the health factor would fall below 1; repay the loan
  first".
\<close>

definition MSG_ENTER_COLLATERAL :: string where
  "MSG_ENTER_COLLATERAL = ''Enter the collateral amount''"

definition MSG_DEBT_REMAINS :: string where
  "MSG_DEBT_REMAINS = ''Debt remains: the collateral cannot be withdrawn in full''"

definition MSG_HF_BELOW_1 :: string where
  "MSG_HF_BELOW_1 = ''The health factor would fall below 1''"

text \<open>
  \<open>simulate\<close> sets the amount field and the simulated health factor. The result is the
  exception that ends the handler, if there is one, and the state after the handler: when
  \<open>calculateHealthFactor\<close> throws, the amount has been set already and \<open>simulatedHF\<close>
  keeps the value it had.
\<close>

definition simulate :: "dashboard \<Rightarrow> string \<Rightarrow> exn option \<times> dashboard" where
  "simulate s v =
     (let s1 = s\<lparr>inputAmount := v\<rparr>
      in if v = [] \<or> num_eq (parseFloat v) (Finite 0) then (None, s1\<lparr>simulatedHF := None\<rparr>)
         else if selection s = Some UPETH_BORROW then
           let borrowAmount = parseFloat v;
               collateral' = num_or (parseFloat (collateralAmount s)) (Finite 0)
           in case calculateHealthFactor s borrowAmount collateral' of
                Inl e \<Rightarrow> (Some e, s1)
              | Inr hf \<Rightarrow> (None, s1\<lparr>simulatedHF := hf\<rparr>)
         else (None, s1\<lparr>simulatedHF := None\<rparr>))"

text \<open>
  The change handler of the collateral field, for a text \<open>v\<close> that has passed the test
  of the field, and the handler of the MAX button beside it.
\<close>

definition setCollateral :: "dashboard \<Rightarrow> string \<Rightarrow> number \<Rightarrow> exn option \<times> dashboard" where
  "setCollateral s v newCollateralKRW =
     (let s1 = s\<lparr>collateralAmount := v\<rparr>
      in if inputAmount s \<noteq> [] then
           case calculateHealthFactor s (parseFloat (inputAmount s)) newCollateralKRW of
             Inl e \<Rightarrow> (Some e, s1)
           | Inr hf \<Rightarrow> (None, s1\<lparr>simulatedHF := hf\<rparr>)
         else (None, s1))"

definition changeCollateral :: "dashboard \<Rightarrow> string \<Rightarrow> exn option \<times> dashboard" where
  "changeCollateral s v =
     (if is_decimal_text v then setCollateral s v (num_or (parseFloat v) (Finite 0))
      else (None, s))"

definition clickMaxCollateral :: "dashboard \<Rightarrow> exn option \<times> dashboard" where
  "clickMaxCollateral s =
     (if num_eq (upkrwBalance s) (Finite 0) \<or> \<not> isConnected s then (None, s)
      else setCollateral s (toString (upkrwBalance s)) (upkrwBalance s))"

definition getMaxAmount :: "dashboard \<Rightarrow> number" where
  "getMaxAmount s =
     (if actionMode s = mode_withdraw then
        (if selection s = Some UPETH then supplyAssets (userPosition s)
         else if selection s = Some UPKRW then div_1e18 (Number (collateral (userPosition s)))
         else if selection s = Some UPETH_BORROW then borrowAssets (userPosition s)
         else Finite 0)
      else
        (if selection s = Some UPETH \<or> selection s = Some UPETH_BORROW then upethBalance s
         else if selection s = Some UPKRW then upkrwBalance s
         else Finite 0))"

text \<open>
  The change handler of the amount field passes a text on to \<open>simulate\<close> when it is a
  decimal text; the MAX button beside the field passes the largest amount, written as a
  text.
\<close>

definition changeAmount :: "dashboard \<Rightarrow> string \<Rightarrow> exn option \<times> dashboard" where
  "changeAmount s v = (if is_decimal_text v then simulate s v else (None, s))"

definition clickMaxAmount :: "dashboard \<Rightarrow> exn option \<times> dashboard" where
  "clickMaxAmount s =
     (if num_eq (getMaxAmount s) (Finite 0) \<or> \<not> isConnected s then (None, s)
      else simulate s (toString (getMaxAmount s)))"

definition isButtonDisabled :: "dashboard \<Rightarrow> bool" where
  "isButtonDisabled s =
     (if \<not> isConnected s then True
      else if isTxPending s then True
      else if txStep s = approving \<or> txStep s = supplying_collateral \<or> txStep s = borrowing
              \<or> txStep s = executing then True
      else if executionStatus s = confirmed then True
      else if inputAmount s = [] \<or> num_le (parseFloat (inputAmount s)) (Finite 0) then True
      else if num_gt (parseFloat (inputAmount s)) (getMaxAmount s) then True
      else if selection s = Some UPETH_BORROW \<and> actionMode s = mode_supply then
        (if (case simulatedHF s of None \<Rightarrow> False | Some hf \<Rightarrow> num_lt hf (Finite 1)) then True
         else
           let hasExistingCollateral = collateral (userPosition s) > 0;
               hasNewCollateral = (collateralAmount s \<noteq> []
                                   \<and> num_gt (parseFloat (collateralAmount s)) (Finite 0))
           in if \<not> hasExistingCollateral \<and> \<not> hasNewCollateral then True else False)
      else False)"

definition executeSupply :: "dashboard \<Rightarrow> dashboard" where
  "executeSupply s =
     (case (selection s, address s) of
        (Some sel, Some addr) \<Rightarrow>
          if \<not> isConnected s \<or> inputAmount s = [] then s
          else
            (case parseUnits (inputAmount s) of
               Inl e \<Rightarrow> s\<lparr>txStep := idle\<rparr>
             | Inr amount \<Rightarrow>
                 if sel = UPETH_BORROW then
                   let hasExistingCollateral = collateral (userPosition s) > 0;
                       hasNewCollateral = (collateralAmount s \<noteq> []
                                           \<and> num_gt (parseFloat (collateralAmount s)) (Finite 0))
                   in if \<not> hasExistingCollateral \<and> \<not> hasNewCollateral
                      then s\<lparr>errorMessage := Some MSG_ENTER_COLLATERAL\<rparr>
                      else
                        let s1 = s\<lparr>borrowAmountRef := amount\<rparr>
                        in if hasNewCollateral then
                             (case parseUnits (collateralAmount s) of
                                Inl e \<Rightarrow> s1\<lparr>txStep := idle\<rparr>
                              | Inr collateralAmt \<Rightarrow>
                                  writeContract
                                    (s1\<lparr>approvedCollateralRef := collateralAmt, txStep := approving\<rparr>)
                                    (WriteContract ADDRESSES_UPKRW ''approve''
                                       [Address ADDRESSES_MORPHO, Amount collateralAmt]))
                           else
                             writeContract (s1\<lparr>txStep := borrowing\<rparr>)
                               (WriteContract ADDRESSES_MORPHO ''borrow''
                                  [MarketParams, Amount amount, Amount 0, Address addr, Address addr])
                 else
                   let token = (if sel = UPKRW then ADDRESSES_UPKRW else ADDRESSES_UPETH)
                   in writeContract (s\<lparr>approvedCollateralRef := amount, txStep := approving\<rparr>)
                        (WriteContract token ''approve'' [Address ADDRESSES_MORPHO, Amount amount]))
      | _ \<Rightarrow> s)"

text \<open>
  \<open>executeWithdraw\<close>; \<open>fetched\<close> is what the fresh read of the user's position gives when
  the branch for UPKRW makes it.
\<close>

definition executeWithdraw ::
  "dashboard \<Rightarrow> exn + (bigint \<times> bigint \<times> bigint) \<Rightarrow> dashboard" where
  "executeWithdraw s fetched =
     (case (selection s, address s) of
        (Some sel, Some addr) \<Rightarrow>
          if \<not> isConnected s \<or> inputAmount s = [] then s
          else
            (case parseUnits (inputAmount s) of
               Inl e \<Rightarrow> s\<lparr>txStep := idle\<rparr>
             | Inr amount \<Rightarrow>
                 (case sel of
                    UPETH \<Rightarrow>
                      writeContract (s\<lparr>txStep := executing\<rparr>)
                        (WriteContract ADDRESSES_MORPHO ''withdraw''
                           [MarketParams, Amount amount, Amount 0, Address addr, Address addr])
                  | UPKRW \<Rightarrow>
                      if \<not> publicClient s
                      then s\<lparr>errorMessage := Some ''Failed to fetch position'', txStep := idle\<rparr>
                      else
                        (case fetched of
                           Inl e \<Rightarrow> s\<lparr>txStep := idle\<rparr>
                         | Inr (_, freshBorrowShares, freshCollateral) \<Rightarrow>
                             if freshBorrowShares > 0 \<and> amount \<ge> freshCollateral
                             then s\<lparr>errorMessage := Some MSG_DEBT_REMAINS, txStep := idle\<rparr>
                             else
                               let withdrawAmount = (if amount > freshCollateral then freshCollateral
                                                     else amount)
                               in if withdrawAmount = 0
                                  then s\<lparr>errorMessage := Some ''No collateral to withdraw'',
                                         txStep := idle\<rparr>
                                  else
                                    (case
                                       (if freshBorrowShares > 0 \<and> truthy_bigint (oraclePrice s)
                                           \<and> marketData s \<noteq> None
                                        then
                                          case the (marketData s) of
                                            (_, _, totalBorrowAssets, totalBorrowShares, _) \<Rightarrow>
                                          try_bind (bigint_div (freshBorrowShares * totalBorrowAssets)
                                                      totalBorrowShares) (\<lambda>borrowAssets'.
                                          try_bind (parseUnits ''0.0001'') (\<lambda>dust.
                                            if borrowAssets' > dust then
                                              let remainingCollateral = freshCollateral - withdrawAmount
                                              in try_bind
                                                   (bigint_div
                                                      (remainingCollateral * the (oraclePrice s) * LLTV)
                                                      (ORACLE_PRICE_SCALE * WAD)) (\<lambda>maxBorrow.
                                                   Inr (borrowAssets' > maxBorrow))
                                            else Inr False))
                                        else Inr False)
                                     of
                                       Inl e \<Rightarrow> s\<lparr>txStep := idle\<rparr>
                                     | Inr True \<Rightarrow>
                                         s\<lparr>errorMessage := Some MSG_HF_BELOW_1, txStep := idle\<rparr>
                                     | Inr False \<Rightarrow>
                                         writeContract (s\<lparr>txStep := executing\<rparr>)
                                           (WriteContract ADDRESSES_MORPHO ''withdrawCollateral''
                                              [MarketParams, Amount withdrawAmount,
                                               Address addr, Address addr])))
                  | UPETH_BORROW \<Rightarrow>
                      (case parseUnits_toFixed18 (borrowAssets (userPosition s)) of
                         Inl e \<Rightarrow> s\<lparr>txStep := idle\<rparr>
                       | Inr borrowAssetsWei \<Rightarrow>
                           let s1 = s\<lparr>isFullRepayRef := (amount \<ge> borrowAssetsWei)\<rparr>;
                               approveAmount = (if isFullRepayRef s1 then amount + amount sdiv 100
                                                else amount)
                           in writeContract
                                (s1\<lparr>approvedCollateralRef := amount, txStep := approving\<rparr>)
                                (WriteContract ADDRESSES_UPETH ''approve''
                                   [Address ADDRESSES_MORPHO, Amount approveAmount]))))
      | _ \<Rightarrow> s)"

definition executeAfterApprove :: "dashboard \<Rightarrow> dashboard" where
  "executeAfterApprove s =
     (case (selection s, address s) of
        (Some sel, Some addr) \<Rightarrow>
          if \<not> isConnected s then s
          else
            let amount = approvedCollateralRef s
            in if amount = 0 then s
               else if actionMode s = mode_withdraw \<and> sel = UPETH_BORROW then
                 (if isFullRepayRef s
                  then writeContract (s\<lparr>txStep := executing\<rparr>)
                         (WriteContract ADDRESSES_MORPHO ''repay''
                            [MarketParams, Amount 0, Amount (borrowShares (userPosition s)),
                             Address addr, Bytes ''0x''])
                  else writeContract (s\<lparr>txStep := executing\<rparr>)
                         (WriteContract ADDRESSES_MORPHO ''repay''
                            [MarketParams, Amount amount, Amount 0, Address addr, Bytes ''0x'']))
               else if sel = UPETH then
                 writeContract (s\<lparr>txStep := executing\<rparr>)
                   (WriteContract ADDRESSES_MORPHO ''supply''
                      [MarketParams, Amount amount, Amount 0, Address addr, Bytes ''0x''])
               else if sel = UPKRW then
                 writeContract (s\<lparr>txStep := executing\<rparr>)
                   (WriteContract ADDRESSES_MORPHO ''supplyCollateral''
                      [MarketParams, Amount amount, Address addr, Bytes ''0x''])
               else
                 writeContract (s\<lparr>txStep := supplying_collateral\<rparr>)
                   (WriteContract ADDRESSES_MORPHO ''supplyCollateral''
                      [MarketParams, Amount amount, Address addr, Bytes ''0x''])
      | _ \<Rightarrow> s)"

definition executeBorrow :: "dashboard \<Rightarrow> dashboard" where
  "executeBorrow s =
     (case address s of
        None \<Rightarrow> s
      | Some addr \<Rightarrow>
          if \<not> isConnected s \<or> selection s \<noteq> Some UPETH_BORROW then s
          else
            let borrowAmount = borrowAmountRef s
            in if borrowAmount = 0 then s
               else writeContract (s\<lparr>txStep := borrowing\<rparr>)
                      (WriteContract ADDRESSES_MORPHO ''borrow''
                         [MarketParams, Amount borrowAmount, Amount 0, Address addr, Address addr]))"

definition handleButtonClick ::
  "dashboard \<Rightarrow> exn + (bigint \<times> bigint \<times> bigint) \<Rightarrow> dashboard" where
  "handleButtonClick s fetched =
     (if actionMode s = mode_withdraw then
        (if txStep s = approved then executeAfterApprove s
         else if txStep s = idle then executeWithdraw s fetched
         else s)
      else
        (if txStep s = approved then executeAfterApprove s
         else if txStep s = collateral_supplied then executeBorrow s
         else if txStep s = idle then executeSupply s
         else s))"

text \<open>
  The action button carries \<open>disabled={isButtonDisabled()}\<close> and
  \<open>onClick={handleButtonClick}\<close>: a click on it runs the handler only when the button is
  not disabled.
\<close>

definition clickActionButton ::
  "dashboard \<Rightarrow> exn + (bigint \<times> bigint \<times> bigint) \<Rightarrow> dashboard" where
  "clickActionButton s fetched = (if isButtonDisabled s then s else handleButtonClick s fetched)"
section \<open>The state after mounting, and example states\<close>

text \<open>
  The initial values of the state variables and refs; no wallet is connected and no
  contract read has returned yet.
\<close>

definition initial_dashboard :: dashboard where
  "initial_dashboard =
     \<lparr>isConnected = False, address = None, publicClient = True,
      selection = None, actionMode = mode_supply, inputAmount = [], collateralAmount = [],
      simulatedHF = None, executionStatus = exec_idle, txStep = idle,
      approvedCollateralRef = 0, borrowAmountRef = 0, isFullRepayRef = False,
      upethBalance = Finite 0, upkrwBalance = Finite 0,
      userPosition = \<lparr>supplyShares = 0, borrowShares = 0, collateral = 0,
                       supplyAssets = Finite 0, borrowAssets = Finite 0\<rparr>,
      currentHF = None, liquidatablePositions = [], borrowerToCheck = [],
      isLoadingPositions = False, selectedBorrower = None, liquidateAmount = [],
      liquidateTxStep = liq_idle, errorMessage = None,
      marketData = None, oraclePrice = None, positionData = None,
      writeError = None, txHash = None,
      isTxPending = False, isTxSuccess = False, isTxError = False, written = []\<rparr>"

text \<open>
  An oracle price for which one UPETH is worth 4,566,000 UPKRW, a connected user, and a
  market in which 8 of 10 supplied UPETH are borrowed (shares are assets times \<open>10\<^sup>6\<close>).
\<close>

definition example_price :: bigint where
  "example_price = 219010074463425317564607971966"

definition example_user :: string where
  "example_user = ''0x00000000000000000000000000000000000000A1''"

definition example_market :: "bigint \<times> bigint \<times> bigint \<times> bigint \<times> bigint \<times> bigint" where
  "example_market =
     (10000000000000000000, 10000000000000000000000000,
      8000000000000000000, 8000000000000000000000000, 1700000000, 0)"

definition connected_dashboard :: dashboard where
  "connected_dashboard =
     initial_dashboard\<lparr>isConnected := True, address := Some example_user,
       oraclePrice := Some example_price, marketData := Some example_market,
       upethBalance := Finite 100, upkrwBalance := Finite 100000000\<rparr>"

text \<open>
  The borrow panel of the connected user with 50,000,000 UPKRW typed as new collateral;
  the same panel after 12 UPETH is typed as the amount to borrow (the health factor is the
  double \<^verbatim>\<open>0.8395386187764637\<close>); and a borrow panel of a user who has 50,000,000 UPKRW of
  collateral posted while the read of the oracle price has not returned, before and after
  12 UPETH is typed.
\<close>

definition borrow_panel :: dashboard where
  "borrow_panel =
     connected_dashboard\<lparr>selection := Some UPETH_BORROW, collateralAmount := ''50000000''\<rparr>"

definition unsafe_borrow :: dashboard where
  "unsafe_borrow =
     borrow_panel\<lparr>inputAmount := ''12'',
       simulatedHF := Some (Finite (3780945810684823 / 4503599627370496))\<rparr>"

definition no_oracle_panel :: dashboard where
  "no_oracle_panel =
     connected_dashboard\<lparr>oraclePrice := None, selection := Some UPETH_BORROW,
       positionData := Some (0, 0, 50000000000000000000000000),
       userPosition := \<lparr>supplyShares = 0, borrowShares = 0,
                        collateral = 50000000000000000000000000,
                        supplyAssets = Finite 0, borrowAssets = Finite 0\<rparr>\<rparr>"

definition no_oracle_borrow :: dashboard where
  "no_oracle_borrow = no_oracle_panel\<lparr>inputAmount := ''12'', simulatedHF := None\<rparr>"

text \<open>
  A borrow panel of a user who has 50,000,000 UPKRW of collateral posted, at a time when
  one UPETH is worth 1,522,000 UPKRW (the oracle price is three times the price above).
  The user types 12 UPETH; the panel stores the health factor \<^verbatim>\<open>2.518615856329391\<close>. Then
  the next read of the oracle price returns the price above.
\<close>

definition early_panel :: dashboard where
  "early_panel =
     connected_dashboard\<lparr>oraclePrice := Some (3 * example_price),
       selection := Some UPETH_BORROW,
       positionData := Some (0, 0, 50000000000000000000000000),
       userPosition := \<lparr>supplyShares = 0, borrowShares = 0,
                        collateral = 50000000000000000000000000,
                        supplyAssets = Finite 0, borrowAssets = Finite 0\<rparr>\<rparr>"

definition early_borrow :: dashboard where
  "early_borrow =
     early_panel\<lparr>inputAmount := ''12'',
       simulatedHF := Some (Finite (2835709358013617 / 1125899906842624))\<rparr>"

definition stale_borrow :: dashboard where
  "stale_borrow = early_borrow\<lparr>oraclePrice := Some example_price\<rparr>"

text \<open>
  The liquidation view: a borrower with a debt of 2 UPETH (health factor
  \<^verbatim>\<open>0.5037231712658782\<close>, incentive \<^verbatim>\<open>1.05\<close>) is listed and selected, 5.0 UPETH is typed as
  the amount to repay, and the approval is under way.
\<close>

definition example_borrower :: string where
  "example_borrower = ''0x00000000000000000000000000000000000000B2''"

definition example_listed :: LiquidatablePosition where
  "example_listed =
     \<lparr>borrower = example_borrower, lp_collateral = 5000000000000000000000000,
      lp_borrowShares = 2000000000000000000000000, lp_borrowAssets = Finite 2,
      healthFactor = Finite (4537134972821787 / 9007199254740992),
      maxSeizable = 5000000000000000000000000,
      liquidationIncentive = Finite (4728779608739021 / 4503599627370496)\<rparr>"

definition liquidation_view :: dashboard where
  "liquidation_view =
     connected_dashboard\<lparr>liquidatablePositions := [example_listed],
       borrowerToCheck := example_borrower,
       selectedBorrower := Some example_listed, liquidateAmount := ''5.0'',
       liquidateTxStep := liq_approving\<rparr>"


text \<open>
  The borrow panel with 5 UPETH typed (health factor \<^verbatim>\<open>2.0148926850635127\<close>), and the state in which
  the approval requested from it has been sent and has failed on chain.
\<close>

definition safe_borrow :: dashboard where
  "safe_borrow =
     borrow_panel\<lparr>inputAmount := ''5'',
       simulatedHF := Some (Finite (4537134972821787 / 2251799813685248))\<rparr>"

definition approval_reverted :: dashboard where
  "approval_reverted = (executeSupply safe_borrow)\<lparr>txHash := Some ''0x01'', isTxError := True\<rparr>"

text \<open>
  The withdraw panel for collateral: a user with 1000 UPKRW posted and a debt of 0.00005
  UPETH who types 999; and a user with 50,000,000 UPKRW posted and a debt of 5 UPETH who
  types 40,000,000.
\<close>

definition dust_withdraw :: dashboard where
  "dust_withdraw =
     connected_dashboard\<lparr>selection := Some UPKRW, actionMode := mode_withdraw,
       inputAmount := ''999'',
       userPosition := \<lparr>supplyShares = 0, borrowShares = 50000000000000000000,
                        collateral = 1000000000000000000000,
                        supplyAssets = Finite 0,
                        borrowAssets = Finite (7378697629483821 / 147573952589676412928)\<rparr>\<rparr>"

definition unsafe_withdraw :: dashboard where
  "unsafe_withdraw =
     connected_dashboard\<lparr>selection := Some UPKRW, actionMode := mode_withdraw,
       inputAmount := ''40000000'',
       userPosition := \<lparr>supplyShares = 0, borrowShares = 5000000000000000000000000,
                        collateral = 50000000000000000000000000,
                        supplyAssets = Finite 0, borrowAssets = Finite 5\<rparr>\<rparr>"

text \<open>
  A user with 1.086956521739130434 UPKRW posted at an oracle price of one UPETH for one
  UPKRW: a borrow of 1 UPETH has the scaled health factor 999999999999999999, which as a
  number divided by \<^verbatim>\<open>1e18\<close> is 1. The panel before and after 1 UPETH is typed.
\<close>

definition par_price :: bigint where
  "par_price = 10 ^ 36"

definition boundary_panel :: dashboard where
  "boundary_panel =
     connected_dashboard\<lparr>oraclePrice := Some par_price, selection := Some UPETH_BORROW,
       positionData := Some (0, 0, 1086956521739130434),
       userPosition := \<lparr>supplyShares = 0, borrowShares = 0,
                        collateral = 1086956521739130434,
                        supplyAssets = Finite 0, borrowAssets = Finite 0\<rparr>\<rparr>"

definition boundary_borrow :: dashboard where
  "boundary_borrow = boundary_panel\<lparr>inputAmount := ''1'', simulatedHF := Some (Finite 1)\<rparr>"

section \<open>Properties\<close>

subsection \<open>Evaluation of roundings, readings and writings\<close>

lemma floor_rat_divide_numeral [simp]:
  "\<lfloor>numeral a / numeral b :: rat\<rfloor> = numeral a div numeral b"
  using floor_divide_of_int_eq [of "numeral a" "numeral b", where ?'a = rat] by simp

lemma floor_rat_one_divide_numeral [simp]:
  "\<lfloor>1 / numeral b :: rat\<rfloor> = 1 div numeral b"
  using floor_divide_of_int_eq [of 1 "numeral b", where ?'a = rat] by simp

lemma ilog2_eval:
  "2 \<le> x \<Longrightarrow> ilog2 x = ilog2 (x / 2) + 1"
  "0 < x \<Longrightarrow> x < 1 \<Longrightarrow> ilog2 x = ilog2 (2 * x) - 1"
  "1 \<le> x \<Longrightarrow> x < 2 \<Longrightarrow> ilog2 x = 0"
  "x \<le> 0 \<Longrightarrow> ilog2 x = 0"
  by (subst ilog2.simps, simp)+

lemma ilog10_eval:
  "10 \<le> x \<Longrightarrow> ilog10 x = ilog10 (x / 10) + 1"
  "0 < x \<Longrightarrow> x < 1 \<Longrightarrow> ilog10 x = ilog10 (10 * x) - 1"
  "1 \<le> x \<Longrightarrow> x < 10 \<Longrightarrow> ilog10 x = 0"
  "x \<le> 0 \<Longrightarrow> ilog10 x = 0"
  by (subst ilog10.simps, simp)+

lemma digits_of_eval:
  "n < 10 \<Longrightarrow> digits_of n = [digit_char n]"
  "10 \<le> n \<Longrightarrow> digits_of n = digits_of (n div 10) @ [digit_char (n mod 10)]"
  by (subst digits_of.simps, simp)+

lemma shortest_from_eval:
  "shortest_from x n k (numeral v) =
     (case decimal_candidate x n k of
        Some c \<Rightarrow> c
      | None \<Rightarrow> shortest_from x n (Suc k) (pred_numeral v))"
  by (simp add: numeral_eq_Suc)

lemma fraction_digits_eval:
  "fraction_digits f (numeral v) =
     (if f = 0 then []
      else digit_char (nat \<lfloor>10 * f\<rfloor>)
             # fraction_digits (10 * f - of_int \<lfloor>10 * f\<rfloor>) (pred_numeral v))"
  by (simp add: numeral_eq_Suc)

declare div_1e18.simps [simp del]

lemmas double_defs = to_double_def nearest_double_def ilog2_eval rne_def overflow_threshold_def
  scale10_def Let_def

lemmas parse_defs =
  parseUnits_def parseUnits_abs_def parseFloat_def is_digit_def digits_val_def digit_val_def
  strip_sign_def exponent_part_def is_space_def trim_zeros_def

lemmas print_defs = positive_toString_def shortest_decimal_def decimal_candidate_def ilog10_eval
  digits_of_eval digit_char_def shortest_from_eval fraction_digits_eval


lemma try_bind_Inr [simp]: "try_bind (Inr v) f = f v"
  by (simp add: try_bind_def)

lemma try_bind_Inl [simp]: "try_bind (Inl e) f = Inl e"
  by (simp add: try_bind_def)

lemma bigint_div_nonzero [simp]: "b \<noteq> 0 \<Longrightarrow> bigint_div a b = Inr (a sdiv b)"
  by (simp add: bigint_div_def)

lemma bigint_div_zero [simp]: "bigint_div a 0 = Inl RangeError"
  by (simp add: bigint_div_def)

lemma sdiv_nonneg_eq_div: "0 \<le> a \<Longrightarrow> 0 < b \<Longrightarrow> (a::int) sdiv b = a div b"
  by (simp add: signed_divide_int_def sgn_if)

subsection \<open>Rounding to a double is monotone\<close>

lemma ilog2_bounds:
  "0 < x \<Longrightarrow> 2 powi (ilog2 x) \<le> x \<and> x < 2 powi (ilog2 x + 1)"
proof (induction x rule: ilog2.induct)
  case (1 x)
  show ?case
  proof (cases "2 \<le> x")
    case True
    then have pos: "0 < x / 2" by simp
    from 1(1) [OF True pos] have ih: "2 powi ilog2 (x / 2) \<le> x / 2" "x / 2 < 2 powi (ilog2 (x / 2) + 1)"
      by simp_all
    have e: "ilog2 x = ilog2 (x / 2) + 1"
      using True by (subst ilog2.simps) simp
    show ?thesis
      unfolding e using ih by (simp add: power_int_add)
  next
    case False
    show ?thesis
    proof (cases "x < 1")
      case True
      with 1(3) have c: "0 < x \<and> x < 1" by simp
      have pos: "0 < 2 * x" using 1(3) by simp
      from 1(2) [OF False c pos] have ih: "2 powi ilog2 (2 * x) \<le> 2 * x" "2 * x < 2 powi (ilog2 (2 * x) + 1)"
        by simp_all
      have e: "ilog2 x = ilog2 (2 * x) - 1"
        using False c by (subst ilog2.simps) simp
      show ?thesis
        unfolding e using ih by (simp add: power_int_add power_int_diff)
    next
      case ge: False
      have e: "ilog2 x = 0"
        using False ge by (subst ilog2.simps) simp
      show ?thesis
        unfolding e using False ge by simp
    qed
  qed
qed

lemma ilog2_mono:
  assumes "0 < x" and "x \<le> y"
  shows "ilog2 x \<le> ilog2 y"
proof (rule ccontr)
  assume "\<not> ilog2 x \<le> ilog2 y"
  then have "ilog2 y + 1 \<le> ilog2 x" by simp
  then have "(2::rat) powi (ilog2 y + 1) \<le> 2 powi (ilog2 x)"
    by (intro power_int_increasing) simp_all
  moreover have "y < 2 powi (ilog2 y + 1)" "2 powi (ilog2 x) \<le> x"
    using ilog2_bounds [of x] ilog2_bounds [of y] assms by simp_all
  ultimately show False using assms(2) by simp
qed


lemma rne_of_int [simp]: "rne (of_int n) = n"
  by (simp add: rne_def)

lemma rne_zero [simp]: "rne 0 = 0"
  using rne_of_int [of 0] by simp

lemma rne_bounds: "\<lfloor>x\<rfloor> \<le> rne x" "rne x \<le> \<lfloor>x\<rfloor> + 1"
  by (simp_all add: rne_def Let_def)

lemma rne_mono:
  assumes "x \<le> y"
  shows "rne x \<le> rne y"
proof (cases "\<lfloor>x\<rfloor> = \<lfloor>y\<rfloor>")
  case True
  have "x - of_int \<lfloor>y\<rfloor> \<le> y - of_int \<lfloor>y\<rfloor>"
    using assms by simp
  then show ?thesis
    unfolding rne_def Let_def True by auto
next
  case False
  have "\<lfloor>x\<rfloor> \<le> \<lfloor>y\<rfloor>"
    using assms by (rule floor_mono)
  with False have "\<lfloor>x\<rfloor> + 1 \<le> \<lfloor>y\<rfloor>"
    by simp
  then show ?thesis
    using rne_bounds(2) [of x] rne_bounds(1) [of y] by linarith
qed

lemma rne_le_int: "x \<le> of_int n \<Longrightarrow> rne x \<le> n"
  using rne_mono [of x "of_int n"] by simp

lemma rne_ge_int: "of_int n \<le> x \<Longrightarrow> n \<le> rne x"
  using rne_mono [of "of_int n" x] by simp

lemma nearest_double_nonneg: "0 \<le> x \<Longrightarrow> 0 \<le> nearest_double x"
proof -
  assume x: "0 \<le> x"
  have "0 \<le> x / 2 powi max (ilog2 x - 52) (- 1074)"
    using x by simp
  then have "0 \<le> rne (x / 2 powi max (ilog2 x - 52) (- 1074))"
    using rne_ge_int [of 0] by simp
  then show ?thesis
    by (simp add: nearest_double_def Let_def)
qed

lemma two_powi_int: "0 \<le> k \<Longrightarrow> (2::rat) powi k = of_int (2 ^ nat k)"
  by (simp add: power_int_def)

lemma nearest_double_mono:
  assumes "0 < x" and "x \<le> y"
  shows "nearest_double x \<le> nearest_double y"
proof -
  define gx where "gx = max (ilog2 x - 52) (- 1074)"
  define gy where "gy = max (ilog2 y - 52) (- 1074)"
  have y: "0 < y" using assms by simp
  have ee: "ilog2 x \<le> ilog2 y"
    using assms by (rule ilog2_mono)
  then have gg: "gx \<le> gy"
    by (simp add: gx_def gy_def)
  have nx: "nearest_double x = of_int (rne (x / 2 powi gx)) * 2 powi gx"
    and ny: "nearest_double y = of_int (rne (y / 2 powi gy)) * 2 powi gy"
    by (simp_all add: nearest_double_def gx_def gy_def Let_def)
  show ?thesis
  proof (cases "gx = gy")
    case True
    have "x / 2 powi gy \<le> y / 2 powi gy"
      using assms(2) by (simp add: divide_right_mono)
    then have "rne (x / 2 powi gy) \<le> rne (y / 2 powi gy)"
      by (rule rne_mono)
    then show ?thesis
      unfolding nx ny True by (simp add: mult_right_mono)
  next
    case False
    with gg have lt: "gx < gy" by simp
    then have gy: "gy = ilog2 y - 52"
      by (auto simp add: gx_def gy_def max_def split: if_splits)
    have ex: "ilog2 x < ilog2 y"
      using lt ee by (auto simp add: gx_def gy_def max_def split: if_splits)
    define t :: rat where "t = 2 powi (ilog2 y)"
    have xt: "x \<le> t"
    proof -
      have "x < 2 powi (ilog2 x + 1)"
        using ilog2_bounds [OF assms(1)] by simp
      also have "\<dots> \<le> 2 powi (ilog2 y)"
        using ex by (intro power_int_increasing) simp_all
      finally show ?thesis by (simp add: t_def)
    qed
    have ty: "t \<le> y"
      using ilog2_bounds [OF y] by (simp add: t_def)
    have kx: "0 \<le> ilog2 y - gx"
      using lt gy by simp
    have tx: "t / 2 powi gx = of_int (2 ^ nat (ilog2 y - gx))"
      unfolding t_def using kx
      by (simp add: power_int_diff [symmetric] two_powi_int)
    have "x / 2 powi gx \<le> t / 2 powi gx"
      using xt by (simp add: divide_right_mono)
    then have "rne (x / 2 powi gx) \<le> 2 ^ nat (ilog2 y - gx)"
      unfolding tx by (rule rne_le_int)
    then have "rat_of_int (rne (x / 2 powi gx)) \<le> of_int (2 ^ nat (ilog2 y - gx))"
      by (simp only: of_int_le_iff)
    then have "of_int (rne (x / 2 powi gx)) * 2 powi gx \<le> (t / 2 powi gx) * 2 powi gx"
      unfolding tx by (intro mult_right_mono) simp_all
    then have a: "nearest_double x \<le> t"
      unfolding nx by simp
    have ky: "0 \<le> ilog2 y - gy"
      using gy by simp
    have ty': "t / 2 powi gy = of_int (2 ^ nat (ilog2 y - gy))"
      unfolding t_def using ky
      by (simp add: power_int_diff [symmetric] two_powi_int)
    have "t / 2 powi gy \<le> y / 2 powi gy"
      using ty by (simp add: divide_right_mono)
    then have "2 ^ nat (ilog2 y - gy) \<le> rne (y / 2 powi gy)"
      unfolding ty' by (rule rne_ge_int)
    then have "rat_of_int (2 ^ nat (ilog2 y - gy)) \<le> of_int (rne (y / 2 powi gy))"
      by (simp only: of_int_le_iff)
    then have "(t / 2 powi gy) * 2 powi gy \<le> of_int (rne (y / 2 powi gy)) * 2 powi gy"
      unfolding ty' by (intro mult_right_mono) simp_all
    then have b: "t \<le> nearest_double y"
      unfolding ny by simp
    from a b show ?thesis by simp
  qed
qed

lemma nearest_double_zero [simp]: "nearest_double 0 = 0"
  by (simp add: nearest_double_def)

lemma nearest_double_mono0:
  assumes "0 \<le> x" and "x \<le> y"
  shows "nearest_double x \<le> nearest_double y"
proof (cases "x = 0")
  case True
  then show ?thesis using assms nearest_double_nonneg [of y] by simp
next
  case False
  then show ?thesis using assms nearest_double_mono [of x y] by simp
qed

lemma to_double_mono:
  assumes "x \<le> y"
  shows "num_le (to_double x) (to_double y)"
proof -
  consider "0 \<le> x" | "x < 0" "0 \<le> y" | "y < 0" using assms by linarith
  then show ?thesis
  proof cases
    case 1
    then have "nearest_double \<bar>x\<bar> \<le> nearest_double \<bar>y\<bar>"
      using assms nearest_double_mono0 [of x y] by simp
    then show ?thesis
      using 1 assms by (auto simp add: to_double_def Let_def num_le_def)
  next
    case 2
    have "0 \<le> nearest_double \<bar>x\<bar>" "0 \<le> nearest_double \<bar>y\<bar>"
      by (simp_all add: nearest_double_nonneg)
    then show ?thesis
      using 2 by (auto simp add: to_double_def Let_def num_le_def)
  next
    case 3
    then have "nearest_double \<bar>y\<bar> \<le> nearest_double \<bar>x\<bar>"
      using assms nearest_double_mono0 [of "- y" "- x"] by simp
    then show ?thesis
      using 3 assms by (auto simp add: to_double_def Let_def num_le_def)
  qed
qed

lemma to_double_zero [simp]: "to_double 0 = Finite 0"
  by (simp add: to_double_def overflow_threshold_def)

lemma to_double_not_NaN [simp]: "to_double x \<noteq> NaN"
  by (simp add: to_double_def Let_def)


subsection \<open>The texts and numbers of the examples\<close>

lemma parseFloat_example [simp]:
  "parseFloat ''12'' = Finite 12"
  "parseFloat ''5'' = Finite 5"
  "parseFloat ''1'' = Finite 1"
  "parseFloat ''50000000'' = Finite 50000000"
  "parseFloat ''999'' = Finite 999"
  "parseFloat ''40000000'' = Finite 40000000"
  "parseFloat ''3.0'' = Finite 3"
  "parseFloat [] = NaN"
  by (simp_all add: parse_defs double_defs)

lemma parseUnits_example [simp]:
  "parseUnits ''12'' = Inr 12000000000000000000"
  "parseUnits ''5'' = Inr 5000000000000000000"
  "parseUnits ''1'' = Inr 1000000000000000000"
  "parseUnits ''5.0'' = Inr 5000000000000000000"
  "parseUnits ''3.0'' = Inr 3000000000000000000"
  "parseUnits ''50000000'' = Inr 50000000000000000000000000"
  "parseUnits ''0.0001'' = Inr 100000000000000"
  "parseUnits ''999'' = Inr 999000000000000000000"
  "parseUnits ''40000000'' = Inr 40000000000000000000000000"
  by (simp_all add: parse_defs)

subsection \<open>Accuracy of the scaling by \<^verbatim>\<open>1e18\<close>\<close>

lemma rne_error: "\<bar>of_int (rne x) - x\<bar> \<le> 1 / 2"
proof -
  have "of_int \<lfloor>x\<rfloor> \<le> x" "x < of_int \<lfloor>x\<rfloor> + 1"
    by linarith+
  then show ?thesis
    by (auto simp add: rne_def Let_def abs_le_iff)
qed

lemma ilog2_ge:
  assumes "0 < x" and "2 powi k \<le> x"
  shows "k \<le> ilog2 x"
proof (rule ccontr)
  assume "\<not> k \<le> ilog2 x"
  then have "ilog2 x + 1 \<le> k" by simp
  then have "(2::rat) powi (ilog2 x + 1) \<le> 2 powi k"
    by (intro power_int_increasing) simp_all
  moreover have "x < 2 powi (ilog2 x + 1)"
    using ilog2_bounds [OF assms(1)] by simp
  ultimately show False using assms(2) by simp
qed

lemma nearest_double_error:
  assumes "2 powi (- 1022) \<le> x"
  shows "\<bar>nearest_double x - x\<bar> \<le> x / 2 ^ 53"
proof -
  have pos: "0 < x"
    using assms zero_less_power_int [of "2::rat" "- 1022"] by linarith
  define e where "e = ilog2 x"
  have e: "- 1022 \<le> e"
    unfolding e_def using pos assms by (rule ilog2_ge)
  have g: "max (e - 52) (- 1074) = e - 52"
    using e by simp
  define z where "z = x / 2 powi (e - 52)"
  have nd: "nearest_double x = of_int (rne z) * 2 powi (e - 52)"
    by (simp add: nearest_double_def Let_def e_def [symmetric] g z_def)
  have x: "x = z * 2 powi (e - 52)"
    by (simp add: z_def)
  have "\<bar>nearest_double x - x\<bar> = \<bar>of_int (rne z) - z\<bar> * 2 powi (e - 52)"
    unfolding nd by (subst x) (simp add: left_diff_distrib [symmetric] abs_mult)
  also have "\<dots> \<le> (1 / 2) * 2 powi (e - 52)"
    by (intro mult_right_mono rne_error) simp
  also have "\<dots> = 2 powi e / 2 ^ 53"
    using power_int_add [of "2::rat" "e - 52" 52] by simp
  also have "\<dots> \<le> x / 2 ^ 53"
    using ilog2_bounds [OF pos] by (simp add: e_def divide_right_mono)
  finally show ?thesis .
qed

lemma to_double_in_range:
  assumes "2 powi (- 1022) \<le> x" and "x < 2 ^ 1002"
  shows "to_double x = Finite (nearest_double x)"
    and "\<bar>nearest_double x - x\<bar> \<le> x / 2 ^ 53"
proof -
  have pos: "0 < x"
    using assms(1) zero_less_power_int [of "2::rat" "- 1022"] by linarith
  show err: "\<bar>nearest_double x - x\<bar> \<le> x / 2 ^ 53"
    using assms(1) by (rule nearest_double_error)
  have "x / 2 ^ 53 \<le> x"
    using pos by (simp add: divide_le_eq)
  with err have "nearest_double x \<le> 2 * x"
    by linarith
  also have "\<dots> < 2 * 2 ^ 1002"
    using assms(2) by simp
  also have "\<dots> \<le> overflow_threshold"
    unfolding overflow_threshold_def by simp
  finally have "\<not> overflow_threshold \<le> nearest_double x"
    by simp
  then show "to_double x = Finite (nearest_double x)"
    using pos by (simp add: to_double_def Let_def)
qed

lemma scaled_accuracy:
  assumes "0 \<le> q" and "q < 2 ^ 1000"
  shows "\<exists>h. div_1e18 (Number q) = Finite h
           \<and> \<bar>h - of_int q / 10 ^ 18\<bar> \<le> (of_int q / 10 ^ 18) / 2 ^ 51"
proof (cases "q = 0")
  case True
  then show ?thesis
    by (simp add: Number_def div_1e18.simps)
next
  case False
  define X :: rat where "X = of_int q"
  define a where "a = nearest_double X"
  define y where "y = a / 10 ^ 18"
  define h where "h = nearest_double y"
  define Q where "Q = X / 10 ^ 18"
  have X1: "1 \<le> X"
    using False assms(1) by (simp add: X_def)
  have small: "(2::rat) powi (- 1022) \<le> 2 powi (- 61)"
    by (intro power_int_increasing) simp_all
  have small': "(2::rat) powi (- 61) \<le> 1 / (2 * 10 ^ 18)"
    by (simp add: power_int_minus divide_simps)
  have "(2::rat) powi (- 61) \<le> 1"
    using small' by simp
  then have lowX: "2 powi (- 1022) \<le> X"
    using small X1 by linarith
  have "X < 2 ^ 1000"
    using assms(2) unfolding X_def by (metis of_int_less_iff of_int_numeral of_int_power)
  also have "\<dots> \<le> (2::rat) ^ 1002"
    by (intro power_increasing) simp_all
  finally have upX: "X < 2 ^ 1002" .
  have numX: "Number q = Finite a"
    and errX: "\<bar>a - X\<bar> \<le> X / 2 ^ 53"
    using to_double_in_range [OF lowX upX] by (simp_all add: Number_def X_def a_def)
  have half: "X / 2 ^ 53 \<le> X / 2"
    using X1 by (simp add: divide_le_eq)
  have a_lo: "X / 2 \<le> a" and a_hi: "a \<le> 2 * X"
    using errX half X1 by linarith+
  have "1 / (2 * 10 ^ 18) \<le> y"
    unfolding y_def using a_lo X1 by (simp add: divide_simps)
  then have lowy: "2 powi (- 1022) \<le> y"
    using small small' by linarith
  have "y \<le> a"
    unfolding y_def using a_lo X1 by (simp add: divide_le_eq)
  also have "a \<le> 2 * X"
    by (rule a_hi)
  also have "\<dots> < 2 * 2 ^ 1000"
    using \<open>X < 2 ^ 1000\<close> by simp
  also have "\<dots> \<le> (2::rat) ^ 1002"
    by simp
  finally have upy: "y < 2 ^ 1002" .
  have numy: "div_1e18 (Finite a) = Finite h"
    and erry: "\<bar>h - y\<bar> \<le> y / 2 ^ 53"
    using to_double_in_range [OF lowy upy] by (simp_all add: div_1e18.simps y_def h_def)
  have Qpos: "0 < Q"
    using X1 by (simp add: Q_def)
  have yQ: "\<bar>y - Q\<bar> \<le> Q / 2 ^ 53"
  proof -
    have "\<bar>y - Q\<bar> = \<bar>a - X\<bar> / 10 ^ 18"
      by (simp add: y_def Q_def diff_divide_distrib [symmetric])
    also have "\<dots> \<le> (X / 2 ^ 53) / 10 ^ 18"
      using errX by (simp add: divide_right_mono)
    finally show ?thesis
      by (simp add: Q_def)
  qed
  have "y \<le> 2 * Q"
    unfolding y_def Q_def using a_hi by (simp add: divide_simps)
  then have "y / 2 ^ 53 \<le> 2 * Q / 2 ^ 53"
    by (simp add: divide_right_mono)
  with erry yQ have "\<bar>h - Q\<bar> \<le> 2 * Q / 2 ^ 53 + Q / 2 ^ 53"
    by linarith
  also have "\<dots> \<le> Q / 2 ^ 51"
    using Qpos by (simp add: divide_simps)
  finally have "\<bar>h - Q\<bar> \<le> Q / 2 ^ 51" .
  then show ?thesis
    using numX numy by (simp add: Q_def X_def)
qed

subsection \<open>Position accounting\<close>

text \<open>
  C6. When position and market data are present, the effect on them throws nothing, and
  on each side the asset amount it stores is \<open>shares * totalAssets / totalShares\<close> in
  bigint arithmetic (the division truncating), turned into a number and divided by
  \<^verbatim>\<open>1e18\<close> as the last step (\<^verbatim>\<open>Number(q) / 1e18\<close>, in double precision), when the total
  shares of the side are positive, and is 0 when they are zero. For a quotient \<open>q\<close> that
  a contract can return (\<open>0 \<le> q < 2\<^sup>2\<^sup>5\<^sup>6\<close>) the stored number is finite and differs from
  \<open>q / 10\<^sup>1\<^sup>8\<close> by at most the fraction \<open>2\<^sup>-\<^sup>5\<^sup>1\<close> of it.
\<close>

theorem positionEffect_assets:
  assumes "positionData s = Some (ss, bs, c)"
    and "marketData s = Some (tsa, tss, tba, tbs, rest)"
  shows "\<exists>s'. positionEffect s = Inr s'
     \<and> supplyAssets (userPosition s')
         = (if tss > 0 then div_1e18 (Number ((ss * tsa) sdiv tss)) else Finite 0)
     \<and> borrowAssets (userPosition s')
         = (if tbs > 0 then div_1e18 (Number ((bs * tba) sdiv tbs)) else Finite 0)
     \<and> (tss = 0 \<longrightarrow> supplyAssets (userPosition s') = Finite 0)
     \<and> (tbs = 0 \<longrightarrow> borrowAssets (userPosition s') = Finite 0)
     \<and> (tss > 0 \<and> 0 \<le> (ss * tsa) sdiv tss \<and> (ss * tsa) sdiv tss < 2 ^ 256 \<longrightarrow>
          (\<exists>h. supplyAssets (userPosition s') = Finite h
             \<and> \<bar>h - of_int ((ss * tsa) sdiv tss) / 10 ^ 18\<bar>
                 \<le> of_int ((ss * tsa) sdiv tss) / 10 ^ 18 / 2 ^ 51))
     \<and> (tbs > 0 \<and> 0 \<le> (bs * tba) sdiv tbs \<and> (bs * tba) sdiv tbs < 2 ^ 256 \<longrightarrow>
          (\<exists>h. borrowAssets (userPosition s') = Finite h
             \<and> \<bar>h - of_int ((bs * tba) sdiv tbs) / 10 ^ 18\<bar>
                 \<le> of_int ((bs * tba) sdiv tbs) / 10 ^ 18 / 2 ^ 51))"
proof -
  have "\<exists>s'. positionEffect s = Inr s'
     \<and> supplyAssets (userPosition s')
         = (if tss > 0 then div_1e18 (Number ((ss * tsa) sdiv tss)) else Finite 0)
     \<and> borrowAssets (userPosition s')
         = (if tbs > 0 then div_1e18 (Number ((bs * tba) sdiv tbs)) else Finite 0)"
    using assms by (cases rest) (simp add: positionEffect_def)
  then obtain s' where s': "positionEffect s = Inr s'"
    "supplyAssets (userPosition s')
       = (if tss > 0 then div_1e18 (Number ((ss * tsa) sdiv tss)) else Finite 0)"
    "borrowAssets (userPosition s')
       = (if tbs > 0 then div_1e18 (Number ((bs * tba) sdiv tbs)) else Finite 0)"
    by blast
  have range: "q < 2 ^ 256 \<Longrightarrow> q < 2 ^ 1000" for q :: int
  proof -
    assume "q < 2 ^ 256"
    also have "(2::int) ^ 256 \<le> 2 ^ 1000"
      by (intro power_increasing) simp_all
    finally show ?thesis .
  qed
  have acc: "0 \<le> q \<and> q < 2 ^ 256 \<longrightarrow>
          (\<exists>h. div_1e18 (Number q) = Finite h
             \<and> \<bar>h - of_int q / 10 ^ 18\<bar> \<le> of_int q / 10 ^ 18 / 2 ^ 51)" for q
    using scaled_accuracy [of q] range [of q] by blast
  show ?thesis
    using s' acc [of "(ss * tsa) sdiv tss"] acc [of "(bs * tba) sdiv tbs"]
    by (intro exI [of _ s']) simp
qed

lemma tenth_of_a_token:
  "div_1e18 (Number 100000000000000000) = Finite (3602879701896397 / 36028797018963968)"
  by (simp add: Number_def div_1e18.simps double_defs)

theorem positionEffect_assets_witness:
  "\<exists>s'. positionEffect (connected_dashboard\<lparr>positionData := Some (7, 100000000000000000000001, 5),
           marketData := Some (0, 0, 8000000000000000000, 8000000000000000000000000, 1700000000, 0)\<rparr>) = Inr s'
     \<and> supplyAssets (userPosition s') = Finite 0
     \<and> borrowAssets (userPosition s') = Finite (3602879701896397 / 36028797018963968)
     \<and> \<bar>3602879701896397 / 36028797018963968 - 100000000000000000 / 10 ^ 18 :: rat\<bar>
           \<le> 100000000000000000 / 10 ^ 18 / 2 ^ 51"
  using positionEffect_assets [of "connected_dashboard\<lparr>positionData := Some (7, 100000000000000000000001, 5),
           marketData := Some (0, 0, 8000000000000000000, 8000000000000000000000000, 1700000000, 0)\<rparr>"
      7 100000000000000000000001 5
      0 0 8000000000000000000 8000000000000000000000000 "(1700000000, 0)"]
  by (simp add: signed_divide_int_def tenth_of_a_token) blast

subsection \<open>Health factor\<close>

lemma calculateHealthFactor_totals:
  assumes "oraclePrice s = Some price" and "price \<noteq> 0"
    and "parseUnits_toFixed18 (borrowAssets (userPosition s)) = Inr existingBorrow"
    and "parseUnits_toFixed18 newCollateralKRW = Inr newCollateral"
    and "parseUnits_toFixed18 newBorrowETH = Inr newBorrow"
    and "0 < existingBorrow + newBorrow"
    and "0 < collateral (userPosition s) + newCollateral"
    and "hf = div_1e18 (Number ((((collateral (userPosition s) + newCollateral) * price * LLTV)
                 sdiv (ORACLE_PRICE_SCALE * WAD)) * WAD sdiv (existingBorrow + newBorrow)))"
  shows "calculateHealthFactor s newBorrowETH newCollateralKRW
         = Inr (Some (if \<not> isFinite hf \<or> num_gt hf (Finite 1000) then Finite 1000
                      else if num_lt hf (Finite 0) then Finite 0 else hf))"
  using assms
  by (simp add: calculateHealthFactor_def Let_def ORACLE_PRICE_SCALE_def WAD_def)

text \<open>
  C3. With an oracle price, a positive total borrow and a positive total collateral,
  \<open>calculateHealthFactor\<close> throws nothing and returns
  \<open>(totalCollateral * oraclePrice * lltv / (ORACLE_PRICE_SCALE * WAD)) * WAD / totalBorrow\<close>
  (bigint divisions) turned into a number and divided by \<^verbatim>\<open>1e18\<close> (in double precision),
  replaced by 1000 when it is not finite or above 1000 and by 0 when it is negative. The
  totals are the collateral of the position plus the new collateral, and the borrowed
  assets of the position plus the new borrow, each number converted to 18-decimal units.
  For a scaled health factor \<open>hfScaled\<close> with \<open>0 \<le> hfScaled < 2\<^sup>2\<^sup>5\<^sup>6\<close> the number before
  the replacement is finite and differs from \<open>hfScaled / 10\<^sup>1\<^sup>8\<close> by at most the fraction
  \<open>2\<^sup>-\<^sup>5\<^sup>1\<close> of it.
\<close>

theorem calculateHealthFactor_formula:
  assumes "oraclePrice s = Some price" and "price \<noteq> 0"
    and "parseUnits_toFixed18 (borrowAssets (userPosition s)) = Inr existingBorrow"
    and "parseUnits_toFixed18 newCollateralKRW = Inr newCollateral"
    and "parseUnits_toFixed18 newBorrowETH = Inr newBorrow"
    and "totalCollateral = collateral (userPosition s) + newCollateral"
    and "totalBorrow = existingBorrow + newBorrow"
    and "0 < totalBorrow" and "0 < totalCollateral"
    and "maxBorrow = (totalCollateral * price * LLTV) sdiv (ORACLE_PRICE_SCALE * WAD)"
    and "hfScaled = (maxBorrow * WAD) sdiv totalBorrow"
    and "hf = div_1e18 (Number hfScaled)"
  shows "calculateHealthFactor s newBorrowETH newCollateralKRW
         = Inr (Some (if \<not> isFinite hf \<or> num_gt hf (Finite 1000) then Finite 1000
                      else if num_lt hf (Finite 0) then Finite 0 else hf))
       \<and> (0 \<le> hfScaled \<and> hfScaled < 2 ^ 256 \<longrightarrow>
            (\<exists>h. hf = Finite h
               \<and> \<bar>h - of_int hfScaled / 10 ^ 18\<bar> \<le> of_int hfScaled / 10 ^ 18 / 2 ^ 51))"
proof (rule conjI)
  show "calculateHealthFactor s newBorrowETH newCollateralKRW
         = Inr (Some (if \<not> isFinite hf \<or> num_gt hf (Finite 1000) then Finite 1000
                      else if num_lt hf (Finite 0) then Finite 0 else hf))"
    using assms calculateHealthFactor_totals [of s price existingBorrow newCollateralKRW
        newCollateral newBorrowETH newBorrow hf]
    by simp
next
  show "0 \<le> hfScaled \<and> hfScaled < 2 ^ 256 \<longrightarrow>
            (\<exists>h. hf = Finite h
               \<and> \<bar>h - of_int hfScaled / 10 ^ 18\<bar> \<le> of_int hfScaled / 10 ^ 18 / 2 ^ 51)"
  proof
    assume r: "0 \<le> hfScaled \<and> hfScaled < 2 ^ 256"
    then have "hfScaled < 2 ^ 256"
      by simp
    also have "(2::int) ^ 256 \<le> 2 ^ 1000"
      by (intro power_increasing) simp_all
    finally show "\<exists>h. hf = Finite h
               \<and> \<bar>h - of_int hfScaled / 10 ^ 18\<bar> \<le> of_int hfScaled / 10 ^ 18 / 2 ^ 51"
      using scaled_accuracy [of hfScaled] r assms(12) by simp
  qed
qed

lemma Number_example:
  "Number 2014892685063512921 = Finite 2014892685063512832"
  "Number 839538618776463717 = Finite 839538618776463744"
  "Number 2417871222076215505 = Finite 2417871222076215296"
  "Number 999999999999999999 = Finite 1000000000000000000"
  by (simp_all add: Number_def double_defs)

lemma div_1e18_example:
  "div_1e18 (Finite 2014892685063512832) = Finite (4537134972821787 / 2251799813685248)"
  "div_1e18 (Finite 839538618776463744) = Finite (3780945810684823 / 4503599627370496)"
  "div_1e18 (Finite 2417871222076215296) = Finite (170142561480817 / 70368744177664)"
  "div_1e18 (Finite 1000000000000000000) = Finite 1"
  by (simp_all add: div_1e18.simps double_defs)

lemma parseUnits_toFixed18_example:
  "parseUnits_toFixed18 (Finite 0) = Inr 0"
  "parseUnits_toFixed18 (Finite 1) = Inr 1000000000000000000"
  "parseUnits_toFixed18 (Finite 5) = Inr 5000000000000000000"
  "parseUnits_toFixed18 (Finite 12) = Inr 12000000000000000000"
  "parseUnits_toFixed18 (Finite 50000000) = Inr 50000000000000000000000000"
  "parseUnits_toFixed18 (Finite 60000000) = Inr 60000000000000000000000000"
  by (simp_all add: round_half_away_def)

theorem calculateHealthFactor_formula_witness:
  "calculateHealthFactor connected_dashboard (Finite 5) (Finite 50000000)
     = Inr (Some (Finite (4537134972821787 / 2251799813685248)))
   \<and> calculateHealthFactor boundary_panel (Finite 1) (Finite 0) = Inr (Some (Finite 1))
   \<and> \<bar>1 - 999999999999999999 / 10 ^ 18 :: rat\<bar> \<le> 999999999999999999 / 10 ^ 18 / 2 ^ 51"
proof -
  have st: "oraclePrice connected_dashboard = Some example_price"
    "borrowAssets (userPosition connected_dashboard) = Finite 0"
    "collateral (userPosition connected_dashboard) = 0"
    "oraclePrice boundary_panel = Some par_price"
    "borrowAssets (userPosition boundary_panel) = Finite 0"
    "collateral (userPosition boundary_panel) = 1086956521739130434"
    by (simp_all add: boundary_panel_def connected_dashboard_def initial_dashboard_def)
  have p: "example_price \<noteq> 0" "par_price \<noteq> 0"
    by (simp_all add: example_price_def par_price_def)
  have conv: "parseUnits_toFixed18 (borrowAssets (userPosition connected_dashboard)) = Inr 0"
    "parseUnits_toFixed18 (borrowAssets (userPosition boundary_panel)) = Inr 0"
    by (simp_all add: st parseUnits_toFixed18_example del: parseUnits_toFixed18.simps)
  have hf: "div_1e18 (Number ((50000000000000000000000000 * example_price * LLTV
                sdiv (ORACLE_PRICE_SCALE * WAD)) * WAD sdiv 5000000000000000000))
            = Finite (4537134972821787 / 2251799813685248)"
    "div_1e18 (Number ((1086956521739130434 * par_price * LLTV
                sdiv (ORACLE_PRICE_SCALE * WAD)) * WAD sdiv 1000000000000000000))
            = Finite 1"
    by (simp_all add: example_price_def par_price_def LLTV_def ORACLE_PRICE_SCALE_def WAD_def
        signed_divide_int_def Number_example div_1e18_example)
  have "calculateHealthFactor connected_dashboard (Finite 5) (Finite 50000000)
     = Inr (Some (Finite (4537134972821787 / 2251799813685248)))"
    using calculateHealthFactor_formula [OF st(1) p(1) conv(1) parseUnits_toFixed18_example(5)
        parseUnits_toFixed18_example(3) refl refl _ _ refl refl refl]
    by (simp add: st hf num_gt_def)
  moreover have "calculateHealthFactor boundary_panel (Finite 1) (Finite 0) = Inr (Some (Finite 1))"
    using calculateHealthFactor_formula [OF st(4) p(2) conv(2) parseUnits_toFixed18_example(1)
        parseUnits_toFixed18_example(2) refl refl _ _ refl refl refl]
    by (simp add: st hf num_gt_def)
  ultimately show ?thesis
    by simp
qed

subsection \<open>The displayed and the simulated health factor\<close>

lemma round_half_away_nonpos: "q \<le> 0 \<Longrightarrow> round_half_away q \<le> 0"
proof -
  assume q: "q \<le> 0"
  have "\<lfloor>q + 1 / 2\<rfloor> \<le> 0" if "q = 0"
    using that by simp
  moreover have "0 \<le> \<lfloor>- q + 1 / 2\<rfloor>" if "q < 0"
    using that by simp
  ultimately show ?thesis
    using q by (auto simp add: round_half_away_def)
qed

lemma parseUnits_toFixed18_zero: "parseUnits_toFixed18 (Finite 0) = Inr 0"
  by (simp add: round_half_away_def)

lemma parseUnits_toFixed18_nonpos:
  "parseUnits_toFixed18 (Finite q) = Inr b \<Longrightarrow> q \<le> 0 \<Longrightarrow> b \<le> 0"
  using round_half_away_nonpos [of "q * 10 ^ 18"]
  by (auto simp add: mult_le_0_iff split: if_splits)

lemma parseUnits_toFixed18_Finite:
  "parseUnits_toFixed18 x = Inr b \<Longrightarrow> \<exists>q. x = Finite q"
  by (cases x) simp_all

lemma clamp_twice:
  "(let hf = (if \<not> isFinite hf0 \<or> num_gt hf0 (Finite 1000) then Finite 1000 else hf0)
    in if num_lt hf (Finite 0) then Finite 0 else hf)
   = (if \<not> isFinite hf0 \<or> num_gt hf0 (Finite 1000) then Finite 1000
      else if num_lt hf0 (Finite 0) then Finite 0 else hf0)"
  by (cases hf0) (simp_all add: num_gt_def)

lemma currentHFEffect_value:
  assumes "oraclePrice s = Some price" and "price \<noteq> 0"
    and "borrowAssets (userPosition s) = Finite q" and "q > 0"
    and "parseUnits_toFixed18 (Finite q) = Inr b" and "b > 0"
    and "collateral (userPosition s) > 0"
    and "hf = div_1e18 (Number (((collateral (userPosition s) * price * LLTV)
                 sdiv (ORACLE_PRICE_SCALE * WAD)) * WAD sdiv b))"
  shows "currentHFEffect s
         = Inr (s\<lparr>currentHF := Some (if \<not> isFinite hf \<or> num_gt hf (Finite 1000) then Finite 1000
                                       else if num_lt hf (Finite 0) then Finite 0 else hf)\<rparr>)"
proof -
  have scale: "ORACLE_PRICE_SCALE * WAD \<noteq> 0"
    by (simp add: ORACLE_PRICE_SCALE_def WAD_def)
  have b0: "b \<noteq> 0"
    using assms(6) by simp
  have eff: "currentHFEffect s =
      Inr (s\<lparr>currentHF := Some
        (let hf = (if \<not> isFinite hf \<or> num_gt hf (Finite 1000) then Finite 1000 else hf)
         in if num_lt hf (Finite 0) then Finite 0 else hf)\<rparr>)"
    unfolding currentHFEffect_def
    using assms scale b0
    by (simp add: truthy_bigint_def num_gt_def Let_def del: parseUnits_toFixed18.simps)
  show ?thesis
    unfolding eff clamp_twice ..
qed

text \<open>
  C2. When the borrowed assets of the position can be converted to 18-decimal units (they
  are a number below \<open>10\<^sup>2\<^sup>1\<close>), \<open>calculateHealthFactor\<close> with no new borrow and no new
  collateral returns, and the effect that computes the displayed health factor stores
  exactly what it returns: both are undefined, or both are the same number.
\<close>

theorem currentHF_is_simulation_of_nothing:
  assumes "parseUnits_toFixed18 (borrowAssets (userPosition s)) = Inr b"
  shows "\<exists>h. calculateHealthFactor s (Finite 0) (Finite 0) = Inr h
           \<and> currentHFEffect s = Inr (s\<lparr>currentHF := h\<rparr>)"
proof (cases "truthy_bigint (oraclePrice s)")
  case False
  show ?thesis
  proof (cases "oraclePrice s")
    case None
    then show ?thesis
      by (simp add: calculateHealthFactor_def currentHFEffect_def truthy_bigint_def)
  next
    case (Some price)
    with False have "price = 0"
      by (simp add: truthy_bigint_def)
    with Some show ?thesis
      by (simp add: calculateHealthFactor_def currentHFEffect_def truthy_bigint_def)
  qed
next
  case True
  then obtain price where price: "oraclePrice s = Some price" "price \<noteq> 0"
    by (auto simp add: truthy_bigint_def split: option.splits)
  obtain q where q: "borrowAssets (userPosition s) = Finite q"
    using parseUnits_toFixed18_Finite [OF assms] by blast
  have conv: "parseUnits_toFixed18 (Finite q) = Inr b"
    using assms q by simp
  note defs = calculateHealthFactor_def currentHFEffect_def num_gt_def Let_def
    truthy_bigint_def parseUnits_toFixed18_zero
  show ?thesis
  proof (cases "b > 0")
    case False
    then show ?thesis
      using price q conv
      by (simp add: defs del: parseUnits_toFixed18.simps)
  next
    case bpos: True
    have qpos: "q > 0"
      using parseUnits_toFixed18_nonpos [OF conv] bpos by force
    show ?thesis
    proof (cases "collateral (userPosition s) > 0")
      case False
      then show ?thesis
        using price q bpos conv
        by (simp add: defs del: parseUnits_toFixed18.simps)
    next
      case cpos: True
      define hf where "hf = div_1e18 (Number (((collateral (userPosition s) * price * LLTV)
                 sdiv (ORACLE_PRICE_SCALE * WAD)) * WAD sdiv b))"
      have "calculateHealthFactor s (Finite 0) (Finite 0)
            = Inr (Some (if \<not> isFinite hf \<or> num_gt hf (Finite 1000) then Finite 1000
                         else if num_lt hf (Finite 0) then Finite 0 else hf))"
        using calculateHealthFactor_totals [of s price b "Finite 0" 0 "Finite 0" 0 hf]
          price assms bpos cpos parseUnits_toFixed18_zero hf_def
        by simp
      moreover have "currentHFEffect s
            = Inr (s\<lparr>currentHF := Some (if \<not> isFinite hf \<or> num_gt hf (Finite 1000) then Finite 1000
                                          else if num_lt hf (Finite 0) then Finite 0 else hf)\<rparr>)"
        using currentHFEffect_value [OF price q qpos conv bpos cpos hf_def] .
      ultimately show ?thesis
        by blast
    qed
  qed
qed

theorem currentHF_is_simulation_of_nothing_witness:
  "calculateHealthFactor
     (connected_dashboard\<lparr>userPosition :=
        \<lparr>supplyShares = 0, borrowShares = 5000000000000000000000000,
         collateral = 50000000000000000000000000,
         supplyAssets = Finite 0, borrowAssets = Finite 5\<rparr>\<rparr>) (Finite 0) (Finite 0)
     = Inr (Some (Finite (4537134972821787 / 2251799813685248)))
   \<and> currentHFEffect
     (connected_dashboard\<lparr>userPosition :=
        \<lparr>supplyShares = 0, borrowShares = 5000000000000000000000000,
         collateral = 50000000000000000000000000,
         supplyAssets = Finite 0, borrowAssets = Finite 5\<rparr>\<rparr>)
     = Inr (connected_dashboard\<lparr>userPosition :=
        \<lparr>supplyShares = 0, borrowShares = 5000000000000000000000000,
         collateral = 50000000000000000000000000,
         supplyAssets = Finite 0, borrowAssets = Finite 5\<rparr>,
         currentHF := Some (Finite (4537134972821787 / 2251799813685248))\<rparr>)"
proof -
  let ?s = "connected_dashboard\<lparr>userPosition :=
        \<lparr>supplyShares = 0, borrowShares = 5000000000000000000000000,
         collateral = 50000000000000000000000000,
         supplyAssets = Finite 0, borrowAssets = Finite 5\<rparr>\<rparr>"
  have conv: "parseUnits_toFixed18 (borrowAssets (userPosition ?s)) = Inr 5000000000000000000"
    by (simp add: round_half_away_def)
  have calc: "calculateHealthFactor ?s (Finite 0) (Finite 0)
      = Inr (Some (Finite (4537134972821787 / 2251799813685248)))"
    by (simp add: calculateHealthFactor_def connected_dashboard_def initial_dashboard_def
        example_price_def Let_def round_half_away_def LLTV_def ORACLE_PRICE_SCALE_def WAD_def
        signed_divide_int_def Number_example div_1e18_example num_gt_def)
  from currentHF_is_simulation_of_nothing [OF conv] calc show ?thesis
    by auto
qed

subsection \<open>Monotonicity of the health factor\<close>

lemma num_le_PosInf: "a \<noteq> NaN \<Longrightarrow> num_le a PosInf"
  by (cases a) (simp_all add: num_le_def)

lemma num_le_NegInf: "b \<noteq> NaN \<Longrightarrow> num_le NegInf b"
  by (cases b) (simp_all add: num_le_def)

lemma div_1e18_mono:
  assumes "num_le a b"
  shows "num_le (div_1e18 a) (div_1e18 b)"
proof (cases a)
  case (Finite x)
  show ?thesis
  proof (cases b)
    case (Finite y)
    with \<open>a = Finite x\<close> assms have "x \<le> y"
      by (auto simp add: num_le_def)
    then have "x / 10 ^ 18 \<le> y / 10 ^ 18"
      by (simp add: divide_right_mono)
    then show ?thesis
      unfolding \<open>a = Finite x\<close> Finite div_1e18.simps by (rule to_double_mono)
  next
    case PosInf
    then show ?thesis
      by (simp add: \<open>a = Finite x\<close> div_1e18.simps num_le_PosInf)
  next
    case NegInf
    with \<open>a = Finite x\<close> assms show ?thesis by (simp add: num_le_def)
  next
    case NaN
    with \<open>a = Finite x\<close> assms show ?thesis by (simp add: num_le_def)
  qed
next
  case PosInf
  with assms show ?thesis
    by (cases b) (simp_all add: num_le_def div_1e18.simps)
next
  case NegInf
  with assms have "b \<noteq> NaN"
    by (cases b) (simp_all add: num_le_def)
  then have "div_1e18 b \<noteq> NaN"
    by (cases b) (simp_all add: div_1e18.simps)
  then show ?thesis
    unfolding NegInf div_1e18.simps by (rule num_le_NegInf)
next
  case NaN
  with assms show ?thesis
    by (cases b) (simp_all add: num_le_def)
qed

lemma Number_mono: "a \<le> b \<Longrightarrow> num_le (Number a) (Number b)"
  unfolding Number_def by (rule to_double_mono) simp

lemma scaled_nonneg: "0 \<le> a \<Longrightarrow> num_le (Finite 0) (div_1e18 (Number a))"
proof -
  assume "0 \<le> a"
  then have "num_le (div_1e18 (Number 0)) (div_1e18 (Number a))"
    by (intro div_1e18_mono Number_mono)
  then show ?thesis
    by (simp add: Number_def div_1e18.simps)
qed

lemma clamp_mono:
  assumes "num_le (Finite 0) a" and "num_le a b"
    and "(if \<not> isFinite a \<or> num_gt a (Finite 1000) then Finite 1000
          else if num_lt a (Finite 0) then Finite 0 else a) = Finite h"
    and "(if \<not> isFinite b \<or> num_gt b (Finite 1000) then Finite 1000
          else if num_lt b (Finite 0) then Finite 0 else b) = Finite h'"
  shows "h \<le> h'"
  using assms
  by (cases a; cases b) (auto simp add: num_le_def num_gt_def split: if_splits)

lemma hfScaled_mono:
  fixes C C' B B' price :: int
  assumes "0 < price" and "0 < C" and "C \<le> C'" and "0 < B'" and "B' \<le> B"
  shows "((C * price * LLTV) sdiv (ORACLE_PRICE_SCALE * WAD)) * WAD sdiv B
         \<le> ((C' * price * LLTV) sdiv (ORACLE_PRICE_SCALE * WAD)) * WAD sdiv B'"
    and "0 \<le> ((C * price * LLTV) sdiv (ORACLE_PRICE_SCALE * WAD)) * WAD sdiv B"
proof -
  have scale: "0 < ORACLE_PRICE_SCALE * WAD" and wad: "0 < WAD" and lltv: "0 < LLTV"
    by (simp_all add: ORACLE_PRICE_SCALE_def WAD_def LLTV_def)
  have n: "0 \<le> C * price * LLTV" and n': "0 \<le> C' * price * LLTV"
    using assms lltv by simp_all
  have le: "C * price * LLTV \<le> C' * price * LLTV"
    using assms lltv by (simp add: mult_right_mono)
  define M where "M = (C * price * LLTV) div (ORACLE_PRICE_SCALE * WAD)"
  define M' where "M' = (C' * price * LLTV) div (ORACLE_PRICE_SCALE * WAD)"
  have M: "(C * price * LLTV) sdiv (ORACLE_PRICE_SCALE * WAD) = M"
    and M': "(C' * price * LLTV) sdiv (ORACLE_PRICE_SCALE * WAD) = M'"
    using n n' scale by (simp_all add: M_def M'_def sdiv_nonneg_eq_div)
  have M0: "0 \<le> M"
    using n scale by (simp add: M_def pos_imp_zdiv_nonneg_iff)
  have MM: "M \<le> M'"
    unfolding M_def M'_def using le scale by (rule zdiv_mono1)
  have M0': "0 \<le> M'"
    using M0 MM by simp
  have Bpos: "0 < B"
    using assms by simp
  have "M * WAD div B \<le> M * WAD div B'"
    using M0 wad assms(4,5) by (intro zdiv_mono2) simp_all
  also have "\<dots> \<le> M' * WAD div B'"
    using MM wad assms(4) by (intro zdiv_mono1) (simp_all add: mult_right_mono)
  finally have "M * WAD div B \<le> M' * WAD div B'" .
  moreover have sd: "M * WAD sdiv B = M * WAD div B"
    using M0 wad Bpos by (simp add: sdiv_nonneg_eq_div)
  moreover have "M' * WAD sdiv B' = M' * WAD div B'"
    using M0' wad assms(4) by (simp add: sdiv_nonneg_eq_div)
  ultimately show "((C * price * LLTV) sdiv (ORACLE_PRICE_SCALE * WAD)) * WAD sdiv B
         \<le> ((C' * price * LLTV) sdiv (ORACLE_PRICE_SCALE * WAD)) * WAD sdiv B'"
    by (simp add: M M')
  have "0 \<le> M * WAD div B"
    using M0 wad Bpos by (simp add: pos_imp_zdiv_nonneg_iff)
  then show "0 \<le> ((C * price * LLTV) sdiv (ORACLE_PRICE_SCALE * WAD)) * WAD sdiv B"
    by (simp add: M sd)
qed

lemma calculateHealthFactor_mono:
  assumes "oraclePrice s = Some price" and "oraclePrice s' = Some price" and "0 < price"
    and "parseUnits_toFixed18 (borrowAssets (userPosition s)) = Inr existingBorrow"
    and "parseUnits_toFixed18 newCollateralKRW = Inr newCollateral"
    and "parseUnits_toFixed18 newBorrowETH = Inr newBorrow"
    and "parseUnits_toFixed18 (borrowAssets (userPosition s')) = Inr existingBorrow'"
    and "parseUnits_toFixed18 newCollateralKRW' = Inr newCollateral'"
    and "parseUnits_toFixed18 newBorrowETH' = Inr newBorrow'"
    and "0 < existingBorrow' + newBorrow'"
    and "0 < collateral (userPosition s) + newCollateral"
    and "collateral (userPosition s) + newCollateral \<le> collateral (userPosition s') + newCollateral'"
    and "existingBorrow' + newBorrow' \<le> existingBorrow + newBorrow"
    and "calculateHealthFactor s newBorrowETH newCollateralKRW = Inr (Some (Finite h))"
    and "calculateHealthFactor s' newBorrowETH' newCollateralKRW' = Inr (Some (Finite h'))"
  shows "h \<le> h'"
proof -
  define x where "x = (((collateral (userPosition s) + newCollateral) * price * LLTV)
                 sdiv (ORACLE_PRICE_SCALE * WAD)) * WAD sdiv (existingBorrow + newBorrow)"
  define x' where "x' = (((collateral (userPosition s') + newCollateral') * price * LLTV)
                 sdiv (ORACLE_PRICE_SCALE * WAD)) * WAD sdiv (existingBorrow' + newBorrow')"
  define a where "a = div_1e18 (Number x)"
  define b where "b = div_1e18 (Number x')"
  have p: "price \<noteq> 0" and B: "0 < existingBorrow + newBorrow"
    and C': "0 < collateral (userPosition s') + newCollateral'"
    using assms(3,10,11,12,13) by simp_all
  have h: "(if \<not> isFinite a \<or> num_gt a (Finite 1000) then Finite 1000
            else if num_lt a (Finite 0) then Finite 0 else a) = Finite h"
    using calculateHealthFactor_totals [OF assms(1) p assms(4,5,6) B assms(11)
        a_def [unfolded x_def]] assms(14)
    by simp
  have h': "(if \<not> isFinite b \<or> num_gt b (Finite 1000) then Finite 1000
             else if num_lt b (Finite 0) then Finite 0 else b) = Finite h'"
    using calculateHealthFactor_totals [OF assms(2) p assms(7,8,9) assms(10) C'
        b_def [unfolded x'_def]] assms(15)
    by simp
  have "x \<le> x'" and "0 \<le> x"
    unfolding x_def x'_def
    using hfScaled_mono [OF assms(3) assms(11) assms(12) assms(10) assms(13)]
    by simp_all
  then have "num_le a b" and "num_le (Finite 0) a"
    unfolding a_def b_def by (simp_all add: div_1e18_mono Number_mono scaled_nonneg)
  then show ?thesis
    using clamp_mono [OF _ _ h h'] by simp
qed

text \<open>
  C9. For two calls of \<open>calculateHealthFactor\<close> at the same positive oracle price, each
  with a positive total collateral and a positive total borrow and each returning a
  number: with equal total collateral, the call with the larger total borrow returns the
  smaller or the same health factor; with equal total borrow, the call with the larger
  total collateral returns the larger or the same health factor. (The bigint divisions
  truncate and the conversions to a number round, so that the health factor is monotone
  but not strictly monotone.)
\<close>

theorem calculateHealthFactor_monotone:
  assumes "oraclePrice s = Some price" and "oraclePrice s' = Some price" and "0 < price"
    and "parseUnits_toFixed18 (borrowAssets (userPosition s)) = Inr existingBorrow"
    and "parseUnits_toFixed18 newCollateralKRW = Inr newCollateral"
    and "parseUnits_toFixed18 newBorrowETH = Inr newBorrow"
    and "parseUnits_toFixed18 (borrowAssets (userPosition s')) = Inr existingBorrow'"
    and "parseUnits_toFixed18 newCollateralKRW' = Inr newCollateral'"
    and "parseUnits_toFixed18 newBorrowETH' = Inr newBorrow'"
    and "totalCollateral = collateral (userPosition s) + newCollateral"
    and "totalBorrow = existingBorrow + newBorrow"
    and "totalCollateral' = collateral (userPosition s') + newCollateral'"
    and "totalBorrow' = existingBorrow' + newBorrow'"
    and "0 < totalCollateral" and "0 < totalBorrow"
    and "0 < totalCollateral'" and "0 < totalBorrow'"
    and "calculateHealthFactor s newBorrowETH newCollateralKRW = Inr (Some (Finite h))"
    and "calculateHealthFactor s' newBorrowETH' newCollateralKRW' = Inr (Some (Finite h'))"
  shows "(totalCollateral = totalCollateral' \<and> totalBorrow \<le> totalBorrow' \<longrightarrow> h' \<le> h)
       \<and> (totalBorrow = totalBorrow' \<and> totalCollateral \<le> totalCollateral' \<longrightarrow> h \<le> h')"
proof (intro conjI impI)
  assume "totalCollateral = totalCollateral' \<and> totalBorrow \<le> totalBorrow'"
  then show "h' \<le> h"
    using calculateHealthFactor_mono [OF assms(2) assms(1) assms(3) assms(7,8,9) assms(4,5,6)
        _ _ _ _ assms(19) assms(18)] assms(10-17)
    by simp
next
  assume "totalBorrow = totalBorrow' \<and> totalCollateral \<le> totalCollateral'"
  then show "h \<le> h'"
    using calculateHealthFactor_mono [OF assms(1) assms(2) assms(3) assms(4,5,6) assms(7,8,9)
        _ _ _ _ assms(18) assms(19)] assms(10-17)
    by simp
qed

lemma calculateHealthFactor_example:
  "calculateHealthFactor connected_dashboard (Finite 5) (Finite 50000000)
     = Inr (Some (Finite (4537134972821787 / 2251799813685248)))"
  "calculateHealthFactor connected_dashboard (Finite 12) (Finite 50000000)
     = Inr (Some (Finite (3780945810684823 / 4503599627370496)))"
  "calculateHealthFactor connected_dashboard (Finite 5) (Finite 60000000)
     = Inr (Some (Finite (170142561480817 / 70368744177664)))"
  by (simp_all add: calculateHealthFactor_def connected_dashboard_def initial_dashboard_def
      example_price_def Let_def round_half_away_def LLTV_def ORACLE_PRICE_SCALE_def WAD_def
      signed_divide_int_def Number_example div_1e18_example num_gt_def)

theorem calculateHealthFactor_monotone_witness:
  "calculateHealthFactor connected_dashboard (Finite 5) (Finite 50000000)
     = Inr (Some (Finite (4537134972821787 / 2251799813685248)))
   \<and> calculateHealthFactor connected_dashboard (Finite 12) (Finite 50000000)
     = Inr (Some (Finite (3780945810684823 / 4503599627370496)))
   \<and> calculateHealthFactor connected_dashboard (Finite 5) (Finite 60000000)
     = Inr (Some (Finite (170142561480817 / 70368744177664)))
   \<and> (3780945810684823 / 4503599627370496 :: rat) \<le> 4537134972821787 / 2251799813685248
   \<and> (4537134972821787 / 2251799813685248 :: rat) \<le> 170142561480817 / 70368744177664"
proof -
  have conv: "parseUnits_toFixed18 (borrowAssets (userPosition connected_dashboard)) = Inr 0"
    "parseUnits_toFixed18 (Finite 50000000) = Inr 50000000000000000000000000"
    "parseUnits_toFixed18 (Finite 60000000) = Inr 60000000000000000000000000"
    "parseUnits_toFixed18 (Finite 5) = Inr 5000000000000000000"
    "parseUnits_toFixed18 (Finite 12) = Inr 12000000000000000000"
    by (simp_all add: connected_dashboard_def initial_dashboard_def round_half_away_def)
  have st: "oraclePrice connected_dashboard = Some example_price" "0 < example_price"
    "collateral (userPosition connected_dashboard) = 0"
    by (simp_all add: connected_dashboard_def initial_dashboard_def example_price_def)
  have "(3780945810684823 / 4503599627370496 :: rat) \<le> 4537134972821787 / 2251799813685248"
    using calculateHealthFactor_monotone [OF st(1) st(1) st(2) conv(1) conv(2) conv(4)
        conv(1) conv(2) conv(5) refl refl refl refl _ _ _ _
        calculateHealthFactor_example(1) calculateHealthFactor_example(2)] st(3)
    by simp
  moreover have "(4537134972821787 / 2251799813685248 :: rat) \<le> 170142561480817 / 70368744177664"
    using calculateHealthFactor_monotone [OF st(1) st(1) st(2) conv(1) conv(2) conv(4)
        conv(1) conv(3) conv(4) refl refl refl refl _ _ _ _
        calculateHealthFactor_example(1) calculateHealthFactor_example(3)] st(3)
    by simp
  ultimately show ?thesis
    using calculateHealthFactor_example by simp
qed

subsection \<open>Borrowers without debt\<close>

text \<open>
  C10. When the position read for a borrower has zero borrow shares,
  \<open>checkBorrowerPosition\<close> returns \<^verbatim>\<open>null\<close> and \<open>handleCheckBorrower\<close> leaves the list of
  liquidatable positions as it was: nothing is appended and no entry is replaced.
\<close>

theorem checkBorrowerPosition_no_debt:
  "checkBorrowerPosition s borrowerAddress (Inr (supplyShares', 0, collateral')) = None
   \<and> liquidatablePositions (handleCheckBorrower s (Inr (supplyShares', 0, collateral')))
       = liquidatablePositions s"
proof -
  have none: "checkBorrowerPosition s a (Inr (supplyShares', 0, collateral')) = None" for a
    by (cases "the (marketData s)") (simp add: checkBorrowerPosition_def)
  then show ?thesis
    by (simp add: handleCheckBorrower_def)
qed

theorem checkBorrowerPosition_no_debt_witness:
  "checkBorrowerPosition liquidation_view example_borrower (Inr (0, 0, 5000000000000000000000000))
     = None
   \<and> liquidatablePositions
         (handleCheckBorrower liquidation_view (Inr (0, 0, 5000000000000000000000000)))
       = [example_listed]"
  using checkBorrowerPosition_no_debt [of liquidation_view example_borrower 0
      5000000000000000000000000]
  by (simp add: liquidation_view_def)

subsection \<open>Repaying\<close>



subsection \<open>Failures of a transaction\<close>

lemma executeSupply_safe_borrow:
  "executeSupply safe_borrow =
     safe_borrow\<lparr>borrowAmountRef := 5000000000000000000,
       approvedCollateralRef := 50000000000000000000000000, txStep := approving,
       written := [WriteContract ADDRESSES_UPKRW ''approve''
                     [Address ADDRESSES_MORPHO, Amount 50000000000000000000000000]]\<rparr>"
  by (simp add: executeSupply_def safe_borrow_def borrow_panel_def connected_dashboard_def
      initial_dashboard_def writeContract_def num_gt_def Let_def)

lemma writeErrorEffect_resets:
  assumes "writeError s = Some m"
  shows "txStep (writeErrorEffect s) = idle \<and> errorMessage (writeErrorEffect s) \<noteq> None
       \<and> approvedCollateralRef (writeErrorEffect s) = 0
       \<and> borrowAmountRef (writeErrorEffect s) = 0
       \<and> \<not> isFullRepayRef (writeErrorEffect s)"
  using assms by (simp add: writeErrorEffect_def resetWrite_def Let_def)

lemma txErrorEffect_resets:
  assumes "isTxError s" and "txHash s = Some h" and "h \<noteq> []"
  shows "txStep (txErrorEffect s) = idle
       \<and> errorMessage (txErrorEffect s) = Some ''Transaction failed on chain''
       \<and> approvedCollateralRef (txErrorEffect s) = approvedCollateralRef s
       \<and> borrowAmountRef (txErrorEffect s) = borrowAmountRef s
       \<and> isFullRepayRef (txErrorEffect s) = isFullRepayRef s"
  using assms by (simp add: txErrorEffect_def resetWrite_def)

text \<open>
  C7 at a failing input. The approval of a borrow of 5 UPETH against 50,000,000 UPKRW of
  new collateral fails on chain. The effect on the failed receipt returns the step to idle
  and shows the message, but the approved collateral and the borrow amount stay in their
  refs; the effect on a write error, in the same state, clears them.
\<close>

theorem txErrorEffect_keeps_buffers:
  "txStep approval_reverted = approving
   \<and> txStep (txErrorEffect approval_reverted) = idle
   \<and> errorMessage (txErrorEffect approval_reverted) = Some ''Transaction failed on chain''
   \<and> approvedCollateralRef (txErrorEffect approval_reverted) = 50000000000000000000000000
   \<and> borrowAmountRef (txErrorEffect approval_reverted) = 5000000000000000000
   \<and> approvedCollateralRef
        (writeErrorEffect (approval_reverted\<lparr>writeError := Some (Some ''User rejected the request.'')\<rparr>))
       = 0
   \<and> borrowAmountRef
        (writeErrorEffect (approval_reverted\<lparr>writeError := Some (Some ''User rejected the request.'')\<rparr>))
       = 0"
  by (simp add: approval_reverted_def executeSupply_safe_borrow txErrorEffect_def
      writeErrorEffect_def resetWrite_def Let_def)

subsection \<open>Withdrawing collateral\<close>

text \<open>
  C8, as the code has it. A withdrawal of collateral is checked against the position read
  afresh. If the borrow shares are not zero and the typed amount reaches or exceeds the
  collateral, the withdrawal is rejected with a message and no request. If the borrow
  shares are not zero, an oracle price other than 0 and the market data have arrived, and
  the debt in assets is above the dust threshold of 0.0001 UPETH and above
  \<open>maxBorrow(collateral - amount)\<close>, the withdrawal is rejected with a message and no
  request. A debt below 0.0001 UPETH is not checked against \<open>maxBorrow\<close>, and no debt is
  checked while the oracle price or the market data have not arrived.
\<close>

theorem executeWithdraw_collateral_checks:
  assumes "isConnected s" and "selection s = Some UPKRW" and "address s = Some addr"
    and "inputAmount s \<noteq> []" and "parseUnits (inputAmount s) = Inr amount"
    and "publicClient s"
    and "fetched = Inr (freshSupplyShares, freshBorrowShares, freshCollateral)"
    and "s' = executeWithdraw s fetched"
  shows "(freshBorrowShares > 0 \<and> amount \<ge> freshCollateral
            \<longrightarrow> written s' = written s \<and> txStep s' = idle
                \<and> errorMessage s' = Some MSG_DEBT_REMAINS)
       \<and> (freshBorrowShares > 0 \<and> amount < freshCollateral
            \<and> oraclePrice s = Some price \<and> price \<noteq> 0
            \<and> marketData s = Some (tsa, tss, totalBorrowAssets, totalBorrowShares, rest)
            \<and> totalBorrowShares \<noteq> 0
            \<and> debt = (freshBorrowShares * totalBorrowAssets) sdiv totalBorrowShares
            \<and> debt > 100000000000000
            \<and> debt > ((freshCollateral - amount) * price * LLTV) sdiv (ORACLE_PRICE_SCALE * WAD)
            \<longrightarrow> written s' = written s \<and> txStep s' = idle
                \<and> errorMessage s' = Some (if amount = 0 then ''No collateral to withdraw''
                                          else MSG_HF_BELOW_1))"
proof (rule conjI; rule impI)
  assume "freshBorrowShares > 0 \<and> amount \<ge> freshCollateral"
  then show "written s' = written s \<and> txStep s' = idle \<and> errorMessage s' = Some MSG_DEBT_REMAINS"
    using assms by (simp add: executeWithdraw_def)
next
  assume h: "freshBorrowShares > 0 \<and> amount < freshCollateral
            \<and> oraclePrice s = Some price \<and> price \<noteq> 0
            \<and> marketData s = Some (tsa, tss, totalBorrowAssets, totalBorrowShares, rest)
            \<and> totalBorrowShares \<noteq> 0
            \<and> debt = (freshBorrowShares * totalBorrowAssets) sdiv totalBorrowShares
            \<and> debt > 100000000000000
            \<and> debt > ((freshCollateral - amount) * price * LLTV) sdiv (ORACLE_PRICE_SCALE * WAD)"
  have scale: "ORACLE_PRICE_SCALE * WAD \<noteq> 0"
    by (simp add: ORACLE_PRICE_SCALE_def WAD_def)
  show "written s' = written s \<and> txStep s' = idle
        \<and> errorMessage s' = Some (if amount = 0 then ''No collateral to withdraw''
                                  else MSG_HF_BELOW_1)"
  proof (cases "amount = 0")
    case True
    then show ?thesis
      using assms h by (simp add: executeWithdraw_def)
  next
    case False
    then show ?thesis
      using assms h scale
      by (cases rest) (simp add: executeWithdraw_def truthy_bigint_def Let_def)
  qed
qed

theorem executeWithdraw_collateral_checks_witness:
  "written (executeWithdraw unsafe_withdraw
              (Inr (0, 5000000000000000000000000, 50000000000000000000000000))) = []
   \<and> errorMessage (executeWithdraw unsafe_withdraw
              (Inr (0, 5000000000000000000000000, 50000000000000000000000000)))
       = Some MSG_HF_BELOW_1
   \<and> written (executeWithdraw (unsafe_withdraw\<lparr>inputAmount := ''50000000''\<rparr>)
              (Inr (0, 5000000000000000000000000, 50000000000000000000000000))) = []
   \<and> errorMessage (executeWithdraw (unsafe_withdraw\<lparr>inputAmount := ''50000000''\<rparr>)
              (Inr (0, 5000000000000000000000000, 50000000000000000000000000)))
       = Some MSG_DEBT_REMAINS"
proof -
  let ?f = "Inr (0, 5000000000000000000000000, 50000000000000000000000000)
              :: exn + (bigint \<times> bigint \<times> bigint)"
  let ?t = "unsafe_withdraw\<lparr>inputAmount := ''50000000''\<rparr>"
  have st: "isConnected unsafe_withdraw" "selection unsafe_withdraw = Some UPKRW"
    "address unsafe_withdraw = Some example_user" "inputAmount unsafe_withdraw = ''40000000''"
    "publicClient unsafe_withdraw" "written unsafe_withdraw = []"
    "oraclePrice unsafe_withdraw = Some example_price"
    "marketData unsafe_withdraw = Some example_market"
    by (simp_all add: unsafe_withdraw_def connected_dashboard_def initial_dashboard_def)
  have a: "inputAmount unsafe_withdraw \<noteq> []" "inputAmount ?t \<noteq> []"
    and b: "parseUnits (inputAmount unsafe_withdraw) = Inr 40000000000000000000000000"
      "parseUnits (inputAmount ?t) = Inr 50000000000000000000000000"
    by (simp_all add: st)
  have st': "isConnected ?t" "selection ?t = Some UPKRW" "address ?t = Some example_user"
    "publicClient ?t" "written ?t = []"
    by (simp_all add: st)
  have one: "written (executeWithdraw unsafe_withdraw ?f) = []
      \<and> errorMessage (executeWithdraw unsafe_withdraw ?f) = Some MSG_HF_BELOW_1"
    using executeWithdraw_collateral_checks [where price = example_price
        and tsa = 10000000000000000000 and tss = 10000000000000000000000000
        and totalBorrowAssets = 8000000000000000000
        and totalBorrowShares = 8000000000000000000000000 and rest = "(1700000000, 0)"
        and debt = 5000000000000000000, OF st(1) st(2) st(3) a(1) b(1) st(5) refl refl]
    by (simp add: st example_market_def example_price_def LLTV_def ORACLE_PRICE_SCALE_def
        WAD_def signed_divide_int_def)
  have two: "written (executeWithdraw ?t ?f) = []
      \<and> errorMessage (executeWithdraw ?t ?f) = Some MSG_DEBT_REMAINS"
    using executeWithdraw_collateral_checks [where price = example_price
        and tsa = 10000000000000000000 and tss = 10000000000000000000000000
        and totalBorrowAssets = 8000000000000000000
        and totalBorrowShares = 8000000000000000000000000 and rest = "(1700000000, 0)"
        and debt = 5000000000000000000, OF st'(1) st'(2) st'(3) a(2) b(2) st'(4) refl refl]
    by (simp add: st)
  from one two show ?thesis
    by simp
qed

text \<open>
  C8 as stated fails in its second part, in three ways. A user with 1000 UPKRW posted and
  a debt of 0.00005 UPETH withdraws 999 UPKRW: the debt, \<open>5 * 10\<^sup>1\<^sup>3\<close> units, exceeds what
  the one UPKRW left can support, 201489268506 units, but it is below the dust threshold,
  the check is skipped, and \<open>withdrawCollateral\<close> of 999 UPKRW is handed to the wallet. A
  user with 50,000,000 UPKRW posted and a debt of 5 UPETH withdraws 40,000,000 UPKRW while
  the read of the oracle price, or the read of the market, has not returned: the debt
  exceeds what the 10,000,000 UPKRW left can support at the price of the oracle,
  2014892685063512921 units, but without the price or the totals of the market the check
  is skipped, and \<open>withdrawCollateral\<close> of 40,000,000 UPKRW is handed to the wallet.
\<close>

theorem executeWithdraw_unchecked_counterexample:
  "written (executeWithdraw dust_withdraw
              (Inr (0, 50000000000000000000, 1000000000000000000000)))
     = [WriteContract ADDRESSES_MORPHO ''withdrawCollateral''
          [MarketParams, Amount 999000000000000000000,
           Address example_user, Address example_user]]
   \<and> bigint_div (50000000000000000000 * 8000000000000000000) 8000000000000000000000000
       = Inr 50000000000000
   \<and> bigint_div ((1000000000000000000000 - 999000000000000000000) * example_price * LLTV)
        (ORACLE_PRICE_SCALE * WAD) = Inr 201489268506
   \<and> (50000000000000 :: int) > 201489268506
   \<and> written (executeWithdraw (unsafe_withdraw\<lparr>oraclePrice := None\<rparr>)
              (Inr (0, 5000000000000000000000000, 50000000000000000000000000)))
     = [WriteContract ADDRESSES_MORPHO ''withdrawCollateral''
          [MarketParams, Amount 40000000000000000000000000,
           Address example_user, Address example_user]]
   \<and> written (executeWithdraw (unsafe_withdraw\<lparr>marketData := None\<rparr>)
              (Inr (0, 5000000000000000000000000, 50000000000000000000000000)))
     = [WriteContract ADDRESSES_MORPHO ''withdrawCollateral''
          [MarketParams, Amount 40000000000000000000000000,
           Address example_user, Address example_user]]
   \<and> bigint_div (5000000000000000000000000 * 8000000000000000000) 8000000000000000000000000
       = Inr 5000000000000000000
   \<and> bigint_div ((50000000000000000000000000 - 40000000000000000000000000) * example_price * LLTV)
        (ORACLE_PRICE_SCALE * WAD) = Inr 2014892685063512921
   \<and> (5000000000000000000 :: int) > 2014892685063512921"
  by (simp add: executeWithdraw_def dust_withdraw_def unsafe_withdraw_def connected_dashboard_def
      initial_dashboard_def example_market_def example_price_def truthy_bigint_def
      writeContract_def Let_def LLTV_def ORACLE_PRICE_SCALE_def WAD_def signed_divide_int_def)

subsection \<open>Sizing a liquidation\<close>

lemma Number_liquidation:
  "Number 2000000000000000000 = Finite 2000000000000000000"
  "Number 503723171265878230 = Finite 503723171265878208"
  "Number 500000000000 = Finite 500000000000"
  by (simp_all add: Number_def double_defs)

lemma div_1e18_liquidation:
  "div_1e18 (Finite 2000000000000000000) = Finite 2"
  "div_1e18 (Finite 503723171265878208) = Finite (4537134972821787 / 9007199254740992)"
  "div_1e18 (Finite 500000000000) = Finite (4722366482869645 / 9444732965739290427392)"
  by (simp_all add: div_1e18.simps double_defs)

lemma incentive_example: "to_double (21 / 20) = Finite (4728779608739021 / 4503599627370496)"
  by (simp add: double_defs)

lemma toString_example:
  "toString (Finite 2) = ''2''"
  "toString (Finite (4722366482869645 / 9444732965739290427392)) = ''5e-7''"
  by (simp_all add: print_defs double_defs)

lemma parseUnits_toString_example:
  "parseUnits_toString (Finite 2) = Inr 2000000000000000000"
  "parseUnits_toString (Finite (4722366482869645 / 9444732965739290427392))
     = Inl InvalidDecimalNumberError"
  by (simp_all add: parseUnits_toString_def toString_example parse_defs
      del: toString.simps)

lemma checkBorrowerPosition_example:
  "checkBorrowerPosition liquidation_view example_borrower
     (Inr (0, 2000000000000000000000000, 5000000000000000000000000)) = Some example_listed"
  by (simp add: checkBorrowerPosition_def liquidation_view_def connected_dashboard_def
      initial_dashboard_def example_market_def example_price_def example_listed_def
      example_borrower_def truthy_bigint_def LLTV_def ORACLE_PRICE_SCALE_def WAD_def
      signed_divide_int_def Number_liquidation div_1e18_liquidation incentive_example)

lemma checkBorrowerPosition_small_debt:
  "map_option lp_borrowAssets
     (checkBorrowerPosition liquidation_view example_borrower
        (Inr (0, 500000000000000000, 1000000000000000000)))
   = Some (Finite (4722366482869645 / 9444732965739290427392))"
  "map_option lp_collateral
     (checkBorrowerPosition liquidation_view example_borrower
        (Inr (0, 500000000000000000, 1000000000000000000)))
   = Some 1000000000000000000"
  by (simp_all add: checkBorrowerPosition_def liquidation_view_def connected_dashboard_def
      initial_dashboard_def example_market_def example_price_def
      example_borrower_def truthy_bigint_def LLTV_def ORACLE_PRICE_SCALE_def WAD_def
      signed_divide_int_def Number_liquidation div_1e18_liquidation)

text \<open>
  C4 at a failing input. A borrower with a debt of 2 UPETH is listed and selected, and 5.0
  UPETH is typed as the amount to repay. When the fresh read after the approval gives the
  same position, the step does what the claim says: the amount to repay is cut to the
  debt, the amount to seize, 9588600 UPKRW, is cut to the collateral of 5000000 UPKRW, and
  \<open>liquidate\<close> is requested for 95 hundredths of it. When the fresh read gives a debt of
  \<open>5 * 10\<^sup>1\<^sup>1\<close> units against 1 UPKRW of collateral (the position has been liquidated almost
  entirely in the meantime), the debt as a number is \<^verbatim>\<open>5e-7\<close>, which \<open>toString\<close> writes in
  exponent notation, and \<open>parseUnits\<close> throws: no amount is cut, no message is set, no
  request is made, and the step of the liquidation stays where it was. By the claim the
  amount to repay is \<open>5 * 10\<^sup>1\<^sup>1\<close> units, the amount to seize 2.39715 UPKRW cut to 1 UPKRW,
  and \<open>liquidate\<close> is requested for 0.95 UPKRW.
\<close>

theorem executeLiquidationAfterApprove_small_debt:
  "executeLiquidationAfterApprove liquidation_view
     (Inr (0, 2000000000000000000000000, 5000000000000000000000000))
   = Inr (writeContract (liquidation_view\<lparr>liquidateTxStep := liquidating\<rparr>)
            (WriteContract ADDRESSES_MORPHO ''liquidate''
               [MarketParams, Address example_borrower,
                Amount 4750000000000000000000000, Amount 0, Bytes ''0x'']))
   \<and> map_option lp_borrowAssets
        (checkBorrowerPosition liquidation_view example_borrower
           (Inr (0, 500000000000000000, 1000000000000000000)))
       = Some (Finite (4722366482869645 / 9444732965739290427392))
   \<and> toString (Finite (4722366482869645 / 9444732965739290427392)) = ''5e-7''
   \<and> executeLiquidationAfterApprove liquidation_view
        (Inr (0, 500000000000000000, 1000000000000000000))
       = Inl InvalidDecimalNumberError
   \<and> liquidateTxStep liquidation_view = liq_approving
   \<and> bigint_div (500000000000000000 * 8000000000000000000) 8000000000000000000000000
       = Inr 500000000000
   \<and> bigint_div (min 5000000000000000000 500000000000 * ORACLE_PRICE_SCALE * 105)
        (example_price * 100) = Inr 2397150000000000000
   \<and> bigint_div (min 2397150000000000000 1000000000000000000 * 95) 100
       = Inr 950000000000000000"
proof -
  have st: "selectedBorrower liquidation_view = Some example_listed"
    "liquidateAmount liquidation_view = ''5.0''"
    "oraclePrice liquidation_view = Some example_price"
    "liquidateTxStep liquidation_view = liq_approving"
    "borrower example_listed = example_borrower"
    "lp_borrowAssets example_listed = Finite 2"
    "lp_collateral example_listed = 5000000000000000000000000"
    by (simp_all add: liquidation_view_def connected_dashboard_def initial_dashboard_def
        example_listed_def)
  have p: "example_price \<noteq> 0"
    by (simp add: example_price_def)
  have same: "executeLiquidationAfterApprove liquidation_view
     (Inr (0, 2000000000000000000000000, 5000000000000000000000000))
   = Inr (writeContract (liquidation_view\<lparr>liquidateTxStep := liquidating\<rparr>)
            (WriteContract ADDRESSES_MORPHO ''liquidate''
               [MarketParams, Address example_borrower,
                Amount 4750000000000000000000000, Amount 0, Bytes ''0x'']))"
    using p
    by (simp add: executeLiquidationAfterApprove_def st checkBorrowerPosition_example
        parseUnits_toString_example truthy_bigint_def Let_def ORACLE_PRICE_SCALE_def
        example_price_def signed_divide_int_def)
  obtain fresh where fresh: "checkBorrowerPosition liquidation_view example_borrower
           (Inr (0, 500000000000000000, 1000000000000000000)) = Some fresh"
    "lp_borrowAssets fresh = Finite (4722366482869645 / 9444732965739290427392)"
    using checkBorrowerPosition_small_debt(1) by auto
  have small: "executeLiquidationAfterApprove liquidation_view
        (Inr (0, 500000000000000000, 1000000000000000000)) = Inl InvalidDecimalNumberError"
    using p
    by (simp add: executeLiquidationAfterApprove_def st fresh parseUnits_toString_example
        truthy_bigint_def)
  show ?thesis
    using same small checkBorrowerPosition_small_debt(1) toString_example(2) st(4) p
    by (simp add: ORACLE_PRICE_SCALE_def example_price_def signed_divide_int_def
        del: toString.simps)
qed

theorem executeLiquidationAfterApprove_small_debt_witness:
  "executeLiquidationAfterApprove liquidation_view
     (Inr (0, 500000000000000000, 1000000000000000000))
   \<noteq> Inr (writeContract (liquidation_view\<lparr>liquidateTxStep := liquidating\<rparr>)
            (WriteContract ADDRESSES_MORPHO ''liquidate''
               [MarketParams, Address example_borrower,
                Amount 950000000000000000, Amount 0, Bytes ''0x'']))
   \<and> executeLiquidationAfterApprove liquidation_view
     (Inr (0, 500000000000000000, 1000000000000000000))
   \<noteq> Inr (liquidation_view\<lparr>errorMessage := Some ''No collateral to seize'',
                              liquidateTxStep := liq_idle\<rparr>)"
  using executeLiquidationAfterApprove_small_debt by simp

subsection \<open>The gate on borrowing\<close>

lemma Number_early: "Number 2518615856329391151 = Finite 2518615856329391104"
  by (simp add: Number_def double_defs)

lemma div_1e18_early:
  "div_1e18 (Finite 2518615856329391104) = Finite (2835709358013617 / 1125899906842624)"
  by (simp add: div_1e18.simps double_defs)

lemma simulate_unsafe_borrow: "simulate borrow_panel ''12'' = (None, unsafe_borrow)"
  by (simp add: simulate_def borrow_panel_def unsafe_borrow_def connected_dashboard_def
      initial_dashboard_def calculateHealthFactor_def example_price_def Let_def
      round_half_away_def LLTV_def ORACLE_PRICE_SCALE_def WAD_def signed_divide_int_def
      Number_example div_1e18_example num_gt_def)

lemma simulate_boundary: "simulate boundary_panel ''1'' = (None, boundary_borrow)"
  by (simp add: simulate_def boundary_panel_def boundary_borrow_def connected_dashboard_def
      initial_dashboard_def calculateHealthFactor_def par_price_def Let_def
      round_half_away_def LLTV_def ORACLE_PRICE_SCALE_def WAD_def signed_divide_int_def
      Number_example div_1e18_example num_gt_def)

lemma simulate_no_oracle: "simulate no_oracle_panel ''12'' = (None, no_oracle_borrow)"
  by (simp add: simulate_def no_oracle_panel_def no_oracle_borrow_def connected_dashboard_def
      initial_dashboard_def calculateHealthFactor_def Let_def)

lemma simulate_early: "simulate early_panel ''12'' = (None, early_borrow)"
  by (simp add: simulate_def early_panel_def early_borrow_def connected_dashboard_def
      initial_dashboard_def calculateHealthFactor_def example_price_def Let_def
      round_half_away_def LLTV_def ORACLE_PRICE_SCALE_def WAD_def signed_divide_int_def
      Number_early div_1e18_early num_gt_def)

lemma effects_stale_borrow:
  "currentHFEffect stale_borrow = Inr stale_borrow"
  "positionEffect stale_borrow = Inr stale_borrow"
  by (simp_all add: currentHFEffect_def positionEffect_def stale_borrow_def early_borrow_def
      early_panel_def connected_dashboard_def initial_dashboard_def example_market_def
      truthy_bigint_def num_gt_def Number_def div_1e18.simps)

lemma calculateHealthFactor_stale:
  "calculateHealthFactor stale_borrow (Finite 12) (Finite 0)
     = Inr (Some (Finite (3780945810684823 / 4503599627370496)))"
  by (simp add: calculateHealthFactor_def stale_borrow_def early_borrow_def early_panel_def
      connected_dashboard_def initial_dashboard_def example_price_def Let_def
      round_half_away_def LLTV_def ORACLE_PRICE_SCALE_def WAD_def signed_divide_int_def
      Number_example div_1e18_example num_gt_def)

text \<open>
  C1, as the code has it. The panel holds the simulated health factor that the last
  change of the amount field or of the collateral field has computed for the position
  with the typed borrow and the typed collateral added, when that computation returned.
  In the borrow panel (selection UPETH_BORROW, supply mode), when the simulated health
  factor held by the panel is a number below 1 the action button is disabled and a click
  on it changes nothing, so that no approval and no borrow is handed to the wallet. When
  the simulated health factor is undefined the gate does not apply: the button is then
  disabled exactly by the general checks (no connection, a pending transaction, a step
  under way, a confirmed execution, no positive amount, an amount above the UPETH balance)
  or when there is neither posted nor new collateral. (The health factor is a double: a
  scaled health factor of 999999999999999999 is held as 1 and does not disable the button.)
\<close>

theorem borrow_gate:
  assumes "selection s = Some UPETH_BORROW" and "actionMode s = mode_supply"
  shows "(\<forall>hf. simulatedHF s = Some hf \<and> num_lt hf (Finite 1)
            \<longrightarrow> isButtonDisabled s \<and> clickActionButton s fetched = s)
       \<and> (simulatedHF s = None \<longrightarrow>
            (isButtonDisabled s \<longleftrightarrow>
               \<not> isConnected s \<or> isTxPending s
               \<or> txStep s \<in> {approving, supplying_collateral, borrowing, executing}
               \<or> executionStatus s = confirmed
               \<or> inputAmount s = [] \<or> num_le (parseFloat (inputAmount s)) (Finite 0)
               \<or> num_gt (parseFloat (inputAmount s)) (upethBalance s)
               \<or> (\<not> collateral (userPosition s) > 0
                   \<and> \<not> (collateralAmount s \<noteq> []
                          \<and> num_gt (parseFloat (collateralAmount s)) (Finite 0)))))
       \<and> (\<forall>hf. v \<noteq> [] \<and> \<not> num_eq (parseFloat v) (Finite 0)
              \<and> calculateHealthFactor s (parseFloat v)
                   (num_or (parseFloat (collateralAmount s)) (Finite 0)) = Inr hf
            \<longrightarrow> simulate s v = (None, s\<lparr>inputAmount := v, simulatedHF := hf\<rparr>))
       \<and> (\<forall>hf. is_decimal_text c \<and> inputAmount s \<noteq> []
              \<and> calculateHealthFactor s (parseFloat (inputAmount s))
                   (num_or (parseFloat c) (Finite 0)) = Inr hf
            \<longrightarrow> changeCollateral s c = (None, s\<lparr>collateralAmount := c, simulatedHF := hf\<rparr>))"
proof (intro conjI allI impI)
  fix hf
  assume "simulatedHF s = Some hf \<and> num_lt hf (Finite 1)"
  with assms show "isButtonDisabled s"
    by (simp add: isButtonDisabled_def)
  then show "clickActionButton s fetched = s"
    by (simp add: clickActionButton_def)
next
  assume "simulatedHF s = None"
  with assms show "isButtonDisabled s \<longleftrightarrow>
               \<not> isConnected s \<or> isTxPending s
               \<or> txStep s \<in> {approving, supplying_collateral, borrowing, executing}
               \<or> executionStatus s = confirmed
               \<or> inputAmount s = [] \<or> num_le (parseFloat (inputAmount s)) (Finite 0)
               \<or> num_gt (parseFloat (inputAmount s)) (upethBalance s)
               \<or> (\<not> collateral (userPosition s) > 0
                   \<and> \<not> (collateralAmount s \<noteq> []
                          \<and> num_gt (parseFloat (collateralAmount s)) (Finite 0)))"
    by (simp add: isButtonDisabled_def getMaxAmount_def Let_def)
next
  fix hf
  assume "v \<noteq> [] \<and> \<not> num_eq (parseFloat v) (Finite 0)
              \<and> calculateHealthFactor s (parseFloat v)
                   (num_or (parseFloat (collateralAmount s)) (Finite 0)) = Inr hf"
  with assms show "simulate s v = (None, s\<lparr>inputAmount := v, simulatedHF := hf\<rparr>)"
    by (simp add: simulate_def Let_def)
next
  fix hf
  assume "is_decimal_text c \<and> inputAmount s \<noteq> []
              \<and> calculateHealthFactor s (parseFloat (inputAmount s))
                   (num_or (parseFloat c) (Finite 0)) = Inr hf"
  then show "changeCollateral s c = (None, s\<lparr>collateralAmount := c, simulatedHF := hf\<rparr>)"
    by (simp add: changeCollateral_def setCollateral_def Let_def)
qed

theorem borrow_gate_witness:
  "simulate borrow_panel ''12'' = (None, unsafe_borrow)
   \<and> simulatedHF unsafe_borrow = Some (Finite (3780945810684823 / 4503599627370496))
   \<and> isButtonDisabled unsafe_borrow
   \<and> clickActionButton unsafe_borrow (Inl ReadContractError) = unsafe_borrow
   \<and> written unsafe_borrow = []
   \<and> \<not> isButtonDisabled no_oracle_borrow
   \<and> simulate boundary_panel ''1'' = (None, boundary_borrow)
   \<and> simulatedHF boundary_borrow = Some (Finite 1)
   \<and> \<not> isButtonDisabled boundary_borrow"
proof -
  have d: "simulatedHF boundary_borrow = Some (Finite 1)" "\<not> isButtonDisabled boundary_borrow"
    by (simp_all add: boundary_borrow_def boundary_panel_def connected_dashboard_def
        initial_dashboard_def isButtonDisabled_def getMaxAmount_def num_gt_def num_le_def)
  have a: "selection unsafe_borrow = Some UPETH_BORROW" "actionMode unsafe_borrow = mode_supply"
    "simulatedHF unsafe_borrow = Some (Finite (3780945810684823 / 4503599627370496))"
    "written unsafe_borrow = []"
    by (simp_all add: unsafe_borrow_def borrow_panel_def connected_dashboard_def
        initial_dashboard_def)
  have b: "selection no_oracle_borrow = Some UPETH_BORROW"
    "actionMode no_oracle_borrow = mode_supply" "simulatedHF no_oracle_borrow = None"
    by (simp_all add: no_oracle_borrow_def no_oracle_panel_def connected_dashboard_def
        initial_dashboard_def)
  have c: "\<not> isButtonDisabled no_oracle_borrow"
    using borrow_gate [OF b(1) b(2), of "Inl ReadContractError" "[]" "[]"] b(3)
    by (simp add: no_oracle_borrow_def no_oracle_panel_def connected_dashboard_def
        initial_dashboard_def num_gt_def num_le_def)
  from borrow_gate [OF a(1) a(2), of "Inl ReadContractError" "[]" "[]"] a(3,4) c d
    simulate_unsafe_borrow simulate_boundary
  show ?thesis by simp
qed

text \<open>
  C1 as stated fails in both parts. While the oracle price has not arrived, the simulated
  health factor of a borrow of 12 UPETH against 50,000,000 UPKRW of posted collateral is
  undefined; the action button is enabled and a click hands the borrow of 12 UPETH to the
  wallet. And the simulated health factor is computed only when a field changes: a user
  with 50,000,000 UPKRW posted types 12 UPETH at a price for which the health factor is
  \<^verbatim>\<open>2.518615856329391\<close>; the next read of the oracle price returns a price for which the
  health factor of the same borrow is \<^verbatim>\<open>0.8395386187764637\<close>; the effects on the price and
  on the position leave the panel as it is, the button stays enabled, and a click hands
  the borrow of 12 UPETH to the wallet.
\<close>

theorem borrow_gate_counterexample:
  "simulate no_oracle_panel ''12'' = (None, no_oracle_borrow)
   \<and> simulatedHF no_oracle_borrow = None
   \<and> calculateHealthFactor no_oracle_borrow (Finite 12) (Finite 0) = Inr None
   \<and> \<not> isButtonDisabled no_oracle_borrow
   \<and> written (clickActionButton no_oracle_borrow (Inl ReadContractError))
       = [WriteContract ADDRESSES_MORPHO ''borrow''
            [MarketParams, Amount 12000000000000000000, Amount 0,
             Address example_user, Address example_user]]
   \<and> simulate early_panel ''12'' = (None, early_borrow)
   \<and> simulatedHF early_borrow = Some (Finite (2835709358013617 / 1125899906842624))
   \<and> stale_borrow = early_borrow\<lparr>oraclePrice := Some example_price\<rparr>
   \<and> currentHFEffect stale_borrow = Inr stale_borrow
   \<and> positionEffect stale_borrow = Inr stale_borrow
   \<and> calculateHealthFactor stale_borrow (Finite 12) (Finite 0)
       = Inr (Some (Finite (3780945810684823 / 4503599627370496)))
   \<and> num_lt (Finite (3780945810684823 / 4503599627370496)) (Finite 1)
   \<and> \<not> isButtonDisabled stale_borrow
   \<and> written (clickActionButton stale_borrow (Inl ReadContractError))
       = [WriteContract ADDRESSES_MORPHO ''borrow''
            [MarketParams, Amount 12000000000000000000, Amount 0,
             Address example_user, Address example_user]]"
proof -
  have one: "simulatedHF no_oracle_borrow = None
   \<and> calculateHealthFactor no_oracle_borrow (Finite 12) (Finite 0) = Inr None
   \<and> \<not> isButtonDisabled no_oracle_borrow
   \<and> written (clickActionButton no_oracle_borrow (Inl ReadContractError))
       = [WriteContract ADDRESSES_MORPHO ''borrow''
            [MarketParams, Amount 12000000000000000000, Amount 0,
             Address example_user, Address example_user]]"
    by (simp add: no_oracle_borrow_def no_oracle_panel_def connected_dashboard_def
      initial_dashboard_def calculateHealthFactor_def isButtonDisabled_def getMaxAmount_def
      clickActionButton_def handleButtonClick_def executeSupply_def writeContract_def
      num_gt_def num_le_def Let_def)
  have two: "simulatedHF early_borrow = Some (Finite (2835709358013617 / 1125899906842624))
   \<and> \<not> isButtonDisabled stale_borrow
   \<and> written (clickActionButton stale_borrow (Inl ReadContractError))
       = [WriteContract ADDRESSES_MORPHO ''borrow''
            [MarketParams, Amount 12000000000000000000, Amount 0,
             Address example_user, Address example_user]]"
    by (simp add: stale_borrow_def early_borrow_def early_panel_def connected_dashboard_def
      initial_dashboard_def isButtonDisabled_def getMaxAmount_def
      clickActionButton_def handleButtonClick_def executeSupply_def writeContract_def
      num_gt_def num_le_def Let_def)
  show ?thesis
    using one two simulate_no_oracle simulate_early effects_stale_borrow
      calculateHealthFactor_stale
    by (simp add: stale_borrow_def)
qed
end
